theory Spec2Isabelle
  imports Complex_Main "HOL-Library.Word" "HOL-Library.AList" "HOL-Library.Log_Nat"
    "HOL-Library.Sublist"
begin

unbundle bit_operations_syntax

section \<open>JavaScript values used by the hooks\<close>

text \<open>
  A parsed JSON object is a list of key/value pairs with distinct keys, in insertion order:
  \<open>Object.keys\<close> walks it front to back, reading a key finds its pair, writing an existing
  key keeps its place and writing a new key appends it. (Addresses are wallet addresses such
  as \<open>0x3fa2...\<close>, never array indices, so no key is reordered.)
\<close>

type_synonym 'v obj = "(string \<times> 'v) list"

definition obj_get :: "'v obj \<Rightarrow> string \<Rightarrow> 'v option" where
  "obj_get m k = map_of m k"

definition obj_set :: "'v obj \<Rightarrow> string \<Rightarrow> 'v \<Rightarrow> 'v obj" where
  "obj_set m k v = AList.update k v m"

definition Object_keys :: "'v obj \<Rightarrow> string list" where
  "Object_keys m = map fst m"

text \<open>\<open>x || 0\<close> on a counter that may be missing.\<close>

definition or0 :: "nat option \<Rightarrow> nat" where
  "or0 x = (case x of None \<Rightarrow> 0 | Some v \<Rightarrow> v)"

text \<open>\<open>new Set(xs)\<close> followed by \<open>Array.from\<close>: each element is added in turn, a repeated
  element is ignored, iteration is in order of first insertion.\<close>

definition Set_from :: "'a list \<Rightarrow> 'a list" where
  "Set_from xs = foldl (\<lambda>acc x. if x \<in> set acc then acc else acc @ [x]) [] xs"

text \<open>\<open>xs.slice(0, limit)\<close>: a negative limit counts from the end.\<close>

definition slice0 :: "int \<Rightarrow> 'a list \<Rightarrow> 'a list" where
  "slice0 limit xs =
     (if limit < 0 then take (nat (int (length xs) + limit)) xs else take (nat limit) xs)"

subsection \<open>Numbers\<close>

text \<open>
  Counters and scores are integral JavaScript numbers. The one place where a fraction is
  computed is the win rate, \<open>Math.round((wins / gamesPlayed) * 100)\<close>, so the two binary64
  operations involved are modelled exactly: \<open>fl\<close> rounds a rational to the nearest number
  with a 53-bit significand, ties to even (normal range; the quotients and products that
  occur here are far from overflow and underflow).
\<close>

definition binade :: "rat \<Rightarrow> int" where
  "binade q =
     (if 1 \<le> q then int (floorlog 2 (nat \<lfloor>q\<rfloor>)) - 1
      else - int (floorlog 2 (nat \<lceil>1 / q\<rceil> - 1)))"

definition rne :: "rat \<Rightarrow> int" where
  "rne t =
     (let f = \<lfloor>t\<rfloor>; r = t - of_int f
      in if r < 1 / 2 then f else if 1 / 2 < r then f + 1 else if even f then f else f + 1)"

definition fl :: "rat \<Rightarrow> rat" where
  "fl q =
     (if q = 0 then 0
      else let e = binade \<bar>q\<bar> - 52 in of_int (rne (q / 2 powi e)) * 2 powi e)"

definition js_div :: "rat \<Rightarrow> rat \<Rightarrow> rat" where
  "js_div a b = fl (a / b)"

definition js_mul :: "rat \<Rightarrow> rat \<Rightarrow> rat" where
  "js_mul a b = fl (a * b)"

text \<open>\<open>Math.round\<close>: the nearest integer, a tie going up.\<close>

definition Math_round :: "rat \<Rightarrow> int" where
  "Math_round x = \<lfloor>x + 1 / 2\<rfloor>"

subsection \<open>Strings\<close>

text \<open>\<open>hashCode\<close>: \<open>hash = ((hash << 5) - hash) + char; hash = hash & hash\<close> keeps 32 bits
  at every step; the result is \<open>Math.abs\<close> of the signed value.\<close>

definition hashCode :: "string \<Rightarrow> nat" where
  "hashCode str =
     nat \<bar>sint (foldl (\<lambda>hash c. (push_bit 5 hash - hash) + of_nat (of_char c)) (0 :: 32 word) str)\<bar>"

definition digit_char :: "nat \<Rightarrow> char" where
  "digit_char d = (if d < 10 then char_of (48 + d) else char_of (87 + d))"

fun to_base :: "nat \<Rightarrow> nat \<Rightarrow> string" where
  "to_base b n =
     (if b < 2 \<or> n < b then [digit_char n] else to_base b (n div b) @ [digit_char (n mod b)])"

text \<open>\<open>n.toString(16)\<close> and \<open>`${n}`\<close> for a non-negative integer.\<close>

definition toString16 :: "nat \<Rightarrow> string" where
  "toString16 n = to_base 16 n"

definition toString10 :: "nat \<Rightarrow> string" where
  "toString10 n = to_base 10 n"

section \<open>The remote client (\<open>lib/linera/client.ts\<close>)\<close>

record profile =
  username :: string
  avatarId :: int

record userProfile = profile +
  level :: nat
  xp :: nat
  snakeHighScore :: nat
  snakeGames :: nat
  snakeLaddersWins :: nat
  snakeLaddersLosses :: nat
  tictactoeWins :: nat
  tictactoeLosses :: nat
  unoWins :: nat
  unoLosses :: nat

text \<open>The \<open>avatar\<close> of an entry is one of the twelve glyphs of \<open>AVATARS\<close>; it is kept as
  its index in that table.\<close>

record leaderboardEntry =
  rank :: nat
  playerName :: string
  playerAddress :: string
  score :: nat
  gamesPlayed :: nat
  winRate :: int
  avatar :: nat

text \<open>The operations of \<open>GRAPHQL_MUTATIONS\<close> and \<open>GRAPHQL_QUERIES\<close> that the hook reaches,
  by name and arguments instead of their query text.\<close>

datatype request =
    SUBMIT_SNAKE_SCORE int
  | SUBMIT_TICTACTOE_RESULT bool "string option"
  | SUBMIT_SNAKELADDERS_RESULT bool int
  | SUBMIT_UNO_RESULT bool
  | UPDATE_PROFILE string int
  | GET_LEADERBOARD string int
  | GET_USER_PROFILE string
  | GET_SNAKE_HIGH_SCORE string

text \<open>The fields of a response's \<open>data\<close> that the client reads.\<close>

record gql_data =
  data_leaderboard :: "leaderboardEntry list option"
  data_userProfile :: "userProfile option"
  data_snakeHighScore :: "nat option"

text \<open>A \<open>GraphQLResponse\<close>: its \<open>data\<close> is missing when the service answered with errors
  only.\<close>

type_synonym graphQLResponse = "gql_data option"

text \<open>
  \<open>LineraGameClient\<close>: \<open>isConnected\<close> is \<open>Boolean(this.client && this.wallet)\<close>;
  \<open>application\<close> is the bound application, if any. Calling it gives \<open>None\<close> when
  \<open>application.query\<close> or \<open>JSON.parse\<close> of its answer throws.
\<close>

record lineraGameClient =
  client_isConnected :: bool
  client_chainId :: string
  application :: "(request \<Rightarrow> graphQLResponse option) option"

definition query :: "lineraGameClient \<Rightarrow> request \<Rightarrow> graphQLResponse option" where
  "query c q = (case application c of None \<Rightarrow> None | Some app \<Rightarrow> app q)"

definition mutate :: "lineraGameClient \<Rightarrow> request \<Rightarrow> graphQLResponse option" where
  "mutate c q = query c q"

text \<open>\<open>Boolean(result?.data)\<close>.\<close>

definition has_data :: "graphQLResponse option \<Rightarrow> bool" where
  "has_data result = (case result of None \<Rightarrow> False | Some r \<Rightarrow> r \<noteq> None)"

definition client_submitSnakeScore :: "lineraGameClient \<Rightarrow> int \<Rightarrow> bool" where
  "client_submitSnakeScore c sc = has_data (mutate c (SUBMIT_SNAKE_SCORE sc))"

definition client_submitTicTacToeResult :: "lineraGameClient \<Rightarrow> bool \<Rightarrow> string option \<Rightarrow> bool" where
  "client_submitTicTacToeResult c won opponent =
     has_data (mutate c (SUBMIT_TICTACTOE_RESULT won opponent))"

definition client_submitSnakeLaddersResult :: "lineraGameClient \<Rightarrow> bool \<Rightarrow> int \<Rightarrow> bool" where
  "client_submitSnakeLaddersResult c won position =
     has_data (mutate c (SUBMIT_SNAKELADDERS_RESULT won position))"

definition client_submitUnoResult :: "lineraGameClient \<Rightarrow> bool \<Rightarrow> bool" where
  "client_submitUnoResult c won = has_data (mutate c (SUBMIT_UNO_RESULT won))"

definition client_updateProfile :: "lineraGameClient \<Rightarrow> string \<Rightarrow> int \<Rightarrow> bool" where
  "client_updateProfile c name av = has_data (mutate c (UPDATE_PROFILE name av))"

text \<open>\<open>result?.data?.leaderboard || []\<close>.\<close>

definition client_getLeaderboard :: "lineraGameClient \<Rightarrow> string \<Rightarrow> int \<Rightarrow> leaderboardEntry list" where
  "client_getLeaderboard c gameType limit =
     (case query c (GET_LEADERBOARD gameType limit) of
        Some (Some d) \<Rightarrow> (case data_leaderboard d of Some es \<Rightarrow> es | None \<Rightarrow> [])
      | _ \<Rightarrow> [])"

text \<open>\<open>address || this.chainId\<close>, then \<open>result?.data?.userProfile || null\<close>.\<close>

definition client_getUserProfile :: "lineraGameClient \<Rightarrow> string \<Rightarrow> userProfile option" where
  "client_getUserProfile c addr =
     (let targetAddress = (if addr \<noteq> [] then addr else client_chainId c)
      in if targetAddress = [] then None
         else (case query c (GET_USER_PROFILE targetAddress) of
                 Some (Some d) \<Rightarrow> data_userProfile d
               | _ \<Rightarrow> None))"

text \<open>\<open>result?.data?.snakeHighScore || 0\<close>.\<close>

definition client_getSnakeHighScore :: "lineraGameClient \<Rightarrow> string \<Rightarrow> nat" where
  "client_getSnakeHighScore c addr =
     (let targetAddress = (if addr \<noteq> [] then addr else client_chainId c)
      in if targetAddress = [] then 0
         else (case query c (GET_SNAKE_HIGH_SCORE targetAddress) of
                 Some (Some d) \<Rightarrow> or0 (data_snakeHighScore d)
               | _ \<Rightarrow> 0))"

section \<open>The local store\<close>

record wl_stats =
  wins :: nat
  losses :: nat

record sl_stats = wl_stats +
  bestPosition :: int

text \<open>
  The six \<open>localStorage\<close> keys the hook reads with
  \<open>JSON.parse(localStorage.getItem(key) || '{}')\<close>. \<open>None\<close> is a stored text that
  \<open>JSON.parse\<close> rejects (the read throws); a key that was never written reads as the empty
  object. Every number in these objects was put there by the operations below, which store
  counts and strictly positive scores only, hence \<open>nat\<close>; \<open>bestPosition\<close> is whatever
  position a caller reported.
\<close>

record storage =
  linera_snake_scores :: "nat obj option"
  linera_tictactoe_stats :: "wl_stats obj option"
  linera_snakeladders_stats :: "sl_stats obj option"
  linera_uno_stats :: "wl_stats obj option"
  linera_profiles :: "profile obj option"
  linera_games_played :: "nat obj option"

section \<open>The hook (\<open>hooks/useLineraClient.ts\<close>)\<close>

record lineraWallet =
  address :: string
  chainId :: string
  isRealBlockchain :: bool

record hook =
  isConnected :: bool
  wallet :: "lineraWallet option"
  usingDemoMode :: bool

text \<open>\<open>!usingDemoMode && lineraClient.isConnected\<close>: the call goes to the remote client.\<close>

definition remote :: "hook \<Rightarrow> lineraGameClient \<Rightarrow> bool" where
  "remote h c \<longleftrightarrow> \<not> usingDemoMode h \<and> client_isConnected c"

text \<open>\<open>if (!isConnected || !wallet) return false\<close>: the wallet the operation acts for.\<close>

definition connected_wallet :: "hook \<Rightarrow> lineraWallet option" where
  "connected_wallet h = (if isConnected h then wallet h else None)"

text \<open>Every operation returns its result and the store it leaves behind. A \<open>try\<close> block
  that throws after a first \<open>setItem\<close> keeps that write.\<close>

definition submitSnakeScore :: "hook \<Rightarrow> lineraGameClient \<Rightarrow> storage \<Rightarrow> int \<Rightarrow> bool \<times> storage" where
  "submitSnakeScore h c st sc =
     (case connected_wallet h of
        None \<Rightarrow> (False, st)
      | Some w \<Rightarrow>
          if remote h c then (client_submitSnakeScore c sc, st)
          else (case linera_snake_scores st of
                  None \<Rightarrow> (False, st)
                | Some storedScores \<Rightarrow>
                    let currentHigh = or0 (obj_get storedScores (address w));
                        st1 = (if sc > int currentHigh
                               then st\<lparr>linera_snake_scores :=
                                        Some (obj_set storedScores (address w) (nat sc))\<rparr>
                               else st)
                    in (case linera_games_played st1 of
                          None \<Rightarrow> (False, st1)
                        | Some played \<Rightarrow>
                            (True, st1\<lparr>linera_games_played :=
                                        Some (obj_set played (address w)
                                               (or0 (obj_get played (address w)) + 1))\<rparr>))))"

text \<open>\<open>if (won) stats.wins++; else stats.losses++\<close>.\<close>

definition count_result :: "bool \<Rightarrow> 'a wl_stats_scheme \<Rightarrow> 'a wl_stats_scheme" where
  "count_result won stats = (if won then stats\<lparr>wins := wins stats + 1\<rparr>
                             else stats\<lparr>losses := losses stats + 1\<rparr>)"

definition no_stats :: wl_stats where
  "no_stats = \<lparr>wins = 0, losses = 0\<rparr>"

definition submitTicTacToeResult :: "hook \<Rightarrow> lineraGameClient \<Rightarrow> storage \<Rightarrow> bool \<Rightarrow> bool \<times> storage" where
  "submitTicTacToeResult h c st won =
     (case connected_wallet h of
        None \<Rightarrow> (False, st)
      | Some w \<Rightarrow>
          if remote h c then (client_submitTicTacToeResult c won None, st)
          else (case linera_tictactoe_stats st of
                  None \<Rightarrow> (False, st)
                | Some storedStats \<Rightarrow>
                    let stats = (case obj_get storedStats (address w) of
                                   None \<Rightarrow> no_stats | Some s \<Rightarrow> s)
                    in (True, st\<lparr>linera_tictactoe_stats :=
                                   Some (obj_set storedStats (address w) (count_result won stats))\<rparr>)))"

definition submitSnakeLaddersResult ::
  "hook \<Rightarrow> lineraGameClient \<Rightarrow> storage \<Rightarrow> bool \<Rightarrow> int \<Rightarrow> bool \<times> storage" where
  "submitSnakeLaddersResult h c st won position =
     (case connected_wallet h of
        None \<Rightarrow> (False, st)
      | Some w \<Rightarrow>
          if remote h c then (client_submitSnakeLaddersResult c won position, st)
          else (case linera_snakeladders_stats st of
                  None \<Rightarrow> (False, st)
                | Some storedStats \<Rightarrow>
                    let stats = (case obj_get storedStats (address w) of
                                   None \<Rightarrow> \<lparr>wins = 0, losses = 0, bestPosition = 4\<rparr>
                                 | Some s \<Rightarrow> s);
                        stats1 = count_result won stats;
                        stats2 = (if position < bestPosition stats1
                                  then stats1\<lparr>bestPosition := position\<rparr> else stats1)
                    in (True, st\<lparr>linera_snakeladders_stats :=
                                   Some (obj_set storedStats (address w) stats2)\<rparr>)))"

definition submitUnoResult :: "hook \<Rightarrow> lineraGameClient \<Rightarrow> storage \<Rightarrow> bool \<Rightarrow> bool \<times> storage" where
  "submitUnoResult h c st won =
     (case connected_wallet h of
        None \<Rightarrow> (False, st)
      | Some w \<Rightarrow>
          if remote h c then (client_submitUnoResult c won, st)
          else (case linera_uno_stats st of
                  None \<Rightarrow> (False, st)
                | Some storedStats \<Rightarrow>
                    let stats = (case obj_get storedStats (address w) of
                                   None \<Rightarrow> no_stats | Some s \<Rightarrow> s)
                    in (True, st\<lparr>linera_uno_stats :=
                                   Some (obj_set storedStats (address w) (count_result won stats))\<rparr>)))"

definition updateProfile ::
  "hook \<Rightarrow> lineraGameClient \<Rightarrow> storage \<Rightarrow> string \<Rightarrow> int \<Rightarrow> bool \<times> storage" where
  "updateProfile h c st name av =
     (case connected_wallet h of
        None \<Rightarrow> (False, st)
      | Some w \<Rightarrow>
          if remote h c then (client_updateProfile c name av, st)
          else (case linera_profiles st of
                  None \<Rightarrow> (False, st)
                | Some storedProfiles \<Rightarrow>
                    (True, st\<lparr>linera_profiles :=
                                Some (obj_set storedProfiles (address w)
                                       \<lparr>username = name, avatarId = av\<rparr>)\<rparr>)))"

subsection \<open>Queries\<close>

text \<open>The placeholder board of \<open>generateDemoLeaderboard\<close>: name, score, games, win rate and
  avatar of its ten players.\<close>

definition demoPlayers :: "(string \<times> nat \<times> nat \<times> int \<times> nat) list" where
  "demoPlayers =
     [(''CryptoKing'', 12847, 234, 78, 0),
      (''Web3Pro'', 11293, 198, 72, 1),
      (''BlockMaster'', 10892, 312, 65, 2),
      (''ChainGamer'', 9847, 156, 69, 3),
      (''PixelNinja'', 8921, 287, 61, 4),
      (''TokenChamp'', 8456, 201, 58, 5),
      (''DeFiGamer'', 7892, 178, 55, 6),
      (''NFTPlayer'', 7234, 245, 52, 7),
      (''MetaGamer'', 6891, 134, 60, 8),
      (''ZeroLag'', 6543, 167, 54, 2)]"

definition generateDemoLeaderboard :: "string \<Rightarrow> int \<Rightarrow> leaderboardEntry list" where
  "generateDemoLeaderboard gameType limit =
     map (\<lambda>(i, (name, sc, games, rate, av)).
            \<lparr>rank = i + 1,
             playerName = name,
             playerAddress = ''0x'' @ take 8 (toString16 (hashCode name)) @ ''...'',
             score = sc,
             gamesPlayed = games,
             winRate = rate,
             avatar = av\<rparr>)
         (enumerate 0 (slice0 limit demoPlayers))"

text \<open>The reads at the head of a \<open>try\<close> block; one unreadable key and the block is left
  through its \<open>catch\<close>.\<close>

definition read_all ::
  "storage \<Rightarrow> (nat obj \<times> wl_stats obj \<times> sl_stats obj \<times> wl_stats obj \<times> profile obj \<times> nat obj) option" where
  "read_all st =
     (case linera_snake_scores st of None \<Rightarrow> None | Some storedScores \<Rightarrow>
      case linera_tictactoe_stats st of None \<Rightarrow> None | Some storedTTT \<Rightarrow>
      case linera_snakeladders_stats st of None \<Rightarrow> None | Some storedSL \<Rightarrow>
      case linera_uno_stats st of None \<Rightarrow> None | Some storedUno \<Rightarrow>
      case linera_profiles st of None \<Rightarrow> None | Some storedProfiles \<Rightarrow>
      case linera_games_played st of None \<Rightarrow> None | Some storedGames \<Rightarrow>
        Some (storedScores, storedTTT, storedSL, storedUno, storedProfiles, storedGames))"

text \<open>\<open>stored[address] || { wins: 0, losses: 0 }\<close>.\<close>

definition stats_of :: "'a wl_stats_scheme obj \<Rightarrow> string \<Rightarrow> wl_stats" where
  "stats_of m a =
     (case obj_get m a of None \<Rightarrow> no_stats | Some s \<Rightarrow> \<lparr>wins = wins s, losses = losses s\<rparr>)"

text \<open>The \<open>switch (gameType)\<close> of \<open>getLeaderboard\<close>: score, wins and losses of one player.\<close>

definition score_wins_losses ::
  "string \<Rightarrow> nat \<Rightarrow> wl_stats \<Rightarrow> wl_stats \<Rightarrow> wl_stats \<Rightarrow> nat \<times> nat \<times> nat" where
  "score_wins_losses gameType snakeScore tttStats slStats unoStats =
     (if gameType = ''snake'' then (snakeScore, snakeScore div 50, 0)
      else if gameType = ''tictactoe'' then (wins tttStats * 100, wins tttStats, losses tttStats)
      else if gameType = ''snakeladders'' then (wins slStats * 150, wins slStats, losses slStats)
      else if gameType = ''uno'' then (wins unoStats * 100, wins unoStats, losses unoStats)
      else (snakeScore + (wins tttStats + wins slStats + wins unoStats) * 100,
            wins tttStats + wins slStats + wins unoStats,
            losses tttStats + losses slStats + losses unoStats))"

text \<open>\<open>wins + losses || storedGames[address] || 1\<close>.\<close>

definition games_played_of :: "nat \<Rightarrow> nat \<Rightarrow> nat option \<Rightarrow> nat" where
  "games_played_of w l stored =
     (if w + l \<noteq> 0 then w + l else if or0 stored \<noteq> 0 then or0 stored else 1)"

text \<open>\<open>gamesPlayed > 0 ? Math.round((wins / gamesPlayed) * 100) : 0\<close>.\<close>

definition win_rate :: "nat \<Rightarrow> nat \<Rightarrow> int" where
  "win_rate w g =
     (if g > 0 then Math_round (js_mul (js_div (of_nat w) (of_nat g)) 100) else 0)"

definition leaderboard_entry ::
  "string \<Rightarrow> nat obj \<times> wl_stats obj \<times> sl_stats obj \<times> wl_stats obj \<times> profile obj \<times> nat obj
     \<Rightarrow> string \<Rightarrow> leaderboardEntry" where
  "leaderboard_entry gameType stores addr =
     (case stores of (storedScores, storedTTT, storedSL, storedUno, storedProfiles, storedGames) \<Rightarrow>
        let snakeScore = or0 (obj_get storedScores addr);
            (sc, w, l) = score_wins_losses gameType snakeScore
                           (stats_of storedTTT addr) (stats_of storedSL addr) (stats_of storedUno addr);
            played = games_played_of w l (obj_get storedGames addr);
            name = (case obj_get storedProfiles addr of
                      None \<Rightarrow> []
                    | Some p \<Rightarrow> username p)
        in \<lparr>rank = 0,
            playerName = (if name \<noteq> [] then name
                          else ''Player'' @ toString10 (hashCode addr mod 1000)),
            playerAddress = addr,
            score = sc,
            gamesPlayed = played,
            winRate = win_rate w played,
            avatar = hashCode addr mod 12\<rparr>)"

text \<open>\<open>entries.sort((a, b) => b.score - a.score)\<close>: the sort of the language is stable, so
  it is the stable sort on the negated score; then every entry gets its position as rank.\<close>

definition rank_entries :: "leaderboardEntry list \<Rightarrow> leaderboardEntry list" where
  "rank_entries entries =
     map (\<lambda>(i, e). e\<lparr>rank := i + 1\<rparr>) (enumerate 0 (sort_key (\<lambda>e. - int (score e)) entries))"

definition known_players ::
  "nat obj \<times> wl_stats obj \<times> sl_stats obj \<times> wl_stats obj \<times> profile obj \<times> nat obj \<Rightarrow> string list" where
  "known_players stores =
     (case stores of (storedScores, storedTTT, storedSL, storedUno, storedProfiles, storedGames) \<Rightarrow>
        Set_from (Object_keys storedScores @ Object_keys storedTTT
                  @ Object_keys storedSL @ Object_keys storedUno))"

definition getLeaderboard ::
  "hook \<Rightarrow> lineraGameClient \<Rightarrow> storage \<Rightarrow> string \<Rightarrow> int option \<Rightarrow> leaderboardEntry list" where
  "getLeaderboard h c st gameType lim_opt =
     (let limit = (case lim_opt of None \<Rightarrow> 10 | Some n \<Rightarrow> n)
      in if remote h c then client_getLeaderboard c gameType limit
         else (case read_all st of
                 None \<Rightarrow> generateDemoLeaderboard gameType limit
               | Some stores \<Rightarrow>
                   let allPlayers = known_players stores;
                       entries = rank_entries (map (leaderboard_entry gameType stores) allPlayers)
                   in if length entries = 0 then generateDemoLeaderboard gameType limit
                      else slice0 limit entries))"

text \<open>\<open>address || wallet?.address\<close>; an empty string counts as missing.\<close>

definition target_address :: "hook \<Rightarrow> string option \<Rightarrow> string option" where
  "target_address h a =
     (let own = (case wallet h of None \<Rightarrow> None
                 | Some w \<Rightarrow> if address w \<noteq> [] then Some (address w) else None)
      in case a of None \<Rightarrow> own | Some s \<Rightarrow> if s \<noteq> [] then Some s else own)"

text \<open>Totals stay far below \<open>2 ^ 53\<close>, where \<open>Math.floor(totalXP / 500)\<close> is the integer
  quotient and \<open>%\<close> the remainder.\<close>

definition getUserProfile ::
  "hook \<Rightarrow> lineraGameClient \<Rightarrow> storage \<Rightarrow> string option \<Rightarrow> userProfile option" where
  "getUserProfile h c st a =
     (case target_address h a of
        None \<Rightarrow> None
      | Some targetAddress \<Rightarrow>
          if remote h c then client_getUserProfile c targetAddress
          else (case read_all st of
                  None \<Rightarrow> None
                | Some (storedScores, storedTTT, storedSL, storedUno, storedProfiles, storedGames) \<Rightarrow>
                    let prof = obj_get storedProfiles targetAddress;
                        name = (case prof of None \<Rightarrow> [] | Some p \<Rightarrow> username p);
                        av = (case prof of None \<Rightarrow> 0 | Some p \<Rightarrow> avatarId p);
                        snakeHigh = or0 (obj_get storedScores targetAddress);
                        tttStats = stats_of storedTTT targetAddress;
                        slStats = stats_of storedSL targetAddress;
                        unoStats = stats_of storedUno targetAddress;
                        games = or0 (obj_get storedGames targetAddress);
                        totalWins = wins tttStats + wins slStats + wins unoStats;
                        totalXP = snakeHigh + totalWins * 50
                    in Some \<lparr>username = (if name \<noteq> [] then name else ''Anonymous Player''),
                             avatarId = av,
                             level = totalXP div 500 + 1,
                             xp = totalXP mod 500,
                             snakeHighScore = snakeHigh,
                             snakeGames = games,
                             snakeLaddersWins = wins slStats,
                             snakeLaddersLosses = losses slStats,
                             tictactoeWins = wins tttStats,
                             tictactoeLosses = losses tttStats,
                             unoWins = wins unoStats,
                             unoLosses = losses unoStats\<rparr>))"

definition getSnakeHighScore ::
  "hook \<Rightarrow> lineraGameClient \<Rightarrow> storage \<Rightarrow> string option \<Rightarrow> nat" where
  "getSnakeHighScore h c st a =
     (case target_address h a of
        None \<Rightarrow> 0
      | Some targetAddress \<Rightarrow>
          if remote h c then client_getSnakeHighScore c targetAddress
          else (case linera_snake_scores st of
                  None \<Rightarrow> 0
                | Some storedScores \<Rightarrow> or0 (obj_get storedScores targetAddress)))"

section \<open>Achievements (\<open>hooks/useAchievements.ts\<close>)\<close>

datatype category = Snake | TicTacToe | SnakeLadders | Uno | General

datatype rarity = Common | Rare | Epic | Legendary

text \<open>An entry of the catalogue (its \<open>icon\<close>, a glyph, is left out), and an achievement: the
  entry with its unlock state.\<close>

record achievementDef =
  ach_id :: string
  title :: string
  description :: string
  category :: category
  rarity :: rarity
  xpReward :: nat

record achievement = achievementDef +
  unlocked :: bool
  unlockedAt :: "nat option"

definition entry :: "string \<Rightarrow> string \<Rightarrow> string \<Rightarrow> category \<Rightarrow> rarity \<Rightarrow> nat \<Rightarrow> achievementDef" where
  "entry i t d c r x =
     \<lparr>ach_id = i, title = t, description = d, category = c, rarity = r, xpReward = x\<rparr>"

definition ALL_ACHIEVEMENTS :: "achievementDef list" where
  "ALL_ACHIEVEMENTS =
     [entry ''first_game'' ''First Steps'' ''Play your first game'' General Common 10,
      entry ''play_10'' ''Getting Started'' ''Play 10 games'' General Common 25,
      entry ''play_50'' ''Dedicated Gamer'' ''Play 50 games'' General Rare 100,
      entry ''play_100'' ''Arcade Legend'' ''Play 100 games'' General Epic 250,
      entry ''first_win'' ''Taste of Victory'' ''Win your first game'' General Common 15,
      entry ''win_streak_3'' ''On Fire!'' ''Win 3 games in a row'' General Rare 50,
      entry ''win_streak_5'' ''Unstoppable'' ''Win 5 games in a row'' General Epic 100,
      entry ''win_streak_10'' ''God Mode'' ''Win 10 games in a row'' General Legendary 500,
      entry ''snake_50'' ''Slithering'' ''Score 50 in Snake'' Snake Common 20,
      entry ''snake_100'' ''Snake Charmer'' ''Score 100 in Snake'' Snake Rare 50,
      entry ''snake_200'' ''Python Master'' ''Score 200 in Snake'' Snake Epic 150,
      entry ''snake_500'' ''Anaconda King'' ''Score 500 in Snake'' Snake Legendary 500,
      entry ''snake_no_walls'' ''Edge Walker''
        ''Play Snake for 2 minutes without hitting walls'' Snake Epic 100,
      entry ''ttt_first_win'' ''X Marks Victory'' ''Win your first Tic-Tac-Toe game''
        TicTacToe Common 15,
      entry ''ttt_5_wins'' ''Strategic Mind'' ''Win 5 Tic-Tac-Toe games'' TicTacToe Rare 50,
      entry ''ttt_perfect'' ''Flawless Victory'' ''Win Tic-Tac-Toe in 3 moves'' TicTacToe Epic 100,
      entry ''ttt_20_wins'' ''Grandmaster'' ''Win 20 Tic-Tac-Toe games'' TicTacToe Legendary 300,
      entry ''sl_first_win'' ''Lucky Roller'' ''Win your first Snake & Ladders game''
        SnakeLadders Common 20,
      entry ''sl_ladder_3'' ''Climber'' ''Hit 3 ladders in one game'' SnakeLadders Rare 40,
      entry ''sl_no_snakes'' ''Snake Dodger'' ''Win without hitting any snakes''
        SnakeLadders Epic 150,
      entry ''sl_comeback'' ''Comeback King'' ''Win after being 50+ spaces behind''
        SnakeLadders Legendary 300,
      entry ''uno_first_win'' ''UNO!'' ''Win your first UNO game'' Uno Common 20,
      entry ''uno_plus4'' ''Friendship Ender'' ''Play a Draw 4 card'' Uno Common 10,
      entry ''uno_reverse'' ''No U'' ''Win with a Reverse card'' Uno Rare 50,
      entry ''uno_domination'' ''Card Shark'' ''Win 10 UNO games'' Uno Epic 200,
      entry ''uno_speedrun'' ''Speed Demon'' ''Win UNO in under 2 minutes'' Uno Legendary 400]"

record achievementStats =
  totalGames :: nat
  totalWins :: nat
  currentWinStreak :: nat
  bestWinStreak :: nat
  snakeHighScore :: int
  tttWins :: nat
  slWins :: nat
  unoWins :: nat

text \<open>
  The state of the hook: its three \<open>useState\<close> cells and the \<open>linera-achievements\<close> item
  of \<open>localStorage\<close>, which \<open>saveToStorage\<close> overwrites with the pair it is given.

  \<open>checkAndUnlock\<close> and \<open>trackGamePlayed\<close> are \<open>useCallback\<close> closures: they read the
  \<open>achievements\<close> and \<open>stats\<close> of the render that created them, and write through the
  setters and \<open>saveToStorage\<close>. Each therefore takes two states: \<open>r\<close>, the cells as that
  render saw them, and \<open>s\<close>, the cells and the stored item at the time of the call. A call
  made from the latest render has \<open>r = s\<close>; calls made from one render share \<open>r\<close>.
\<close>

record achievements_state =
  achievements :: "achievement list"
  stats :: achievementStats
  recentUnlock :: "achievement option"
  saved :: "(achievement list \<times> achievementStats) option"

definition no_games :: achievementStats where
  "no_games = \<lparr>totalGames = 0, totalWins = 0, currentWinStreak = 0, bestWinStreak = 0,
               snakeHighScore = 0, tttWins = 0, slWins = 0, unoWins = 0\<rparr>"

text \<open>\<open>{ ...a, unlocked: u, unlockedAt: t }\<close>.\<close>

definition with_state :: "'a achievementDef_scheme \<Rightarrow> bool \<Rightarrow> nat option \<Rightarrow> achievement" where
  "with_state a u t =
     \<lparr>ach_id = ach_id a, title = title a, description = description a, category = category a,
      rarity = rarity a, xpReward = xpReward a, unlocked = u, unlockedAt = t\<rparr>"

text \<open>The hook before and after its loading effect has run on what storage holds.\<close>

definition initial :: "(achievement list \<times> achievementStats) option \<Rightarrow> achievements_state" where
  "initial item = \<lparr>achievements = [], stats = no_games, recentUnlock = None, saved = item\<rparr>"

definition load :: "achievements_state \<Rightarrow> achievements_state" where
  "load s =
     (case saved s of
        Some (savedAchievements, savedStats) \<Rightarrow>
          s\<lparr>achievements :=
               map (\<lambda>a. case find (\<lambda>x. ach_id x = ach_id a) savedAchievements of
                           Some x \<Rightarrow> with_state a (unlocked x) (unlockedAt x)
                         | None \<Rightarrow> with_state a False None)
                   ALL_ACHIEVEMENTS,
             stats := savedStats\<rparr>
      | None \<Rightarrow> s\<lparr>achievements := map (\<lambda>a. with_state a False None) ALL_ACHIEVEMENTS\<rparr>)"

text \<open>\<open>achievements.map(a => a.id === id ? { ...a, unlocked: true, unlockedAt: now } : a)\<close>.\<close>

definition unlock :: "string \<Rightarrow> nat \<Rightarrow> achievement list \<Rightarrow> achievement list" where
  "unlock i now as = map (\<lambda>a. if ach_id a = i then with_state a True (Some now) else a) as"

definition checkAndUnlock ::
  "string \<Rightarrow> nat \<Rightarrow> achievements_state \<Rightarrow> achievements_state \<Rightarrow> bool \<times> achievements_state" where
  "checkAndUnlock achievementId now r s =
     (case find (\<lambda>a. ach_id a = achievementId) (achievements r) of
        None \<Rightarrow> (False, s)
      | Some a \<Rightarrow>
          if unlocked a then (False, s)
          else let updated = unlock achievementId now (achievements r)
               in (True, s\<lparr>achievements := updated,
                            recentUnlock := Some (with_state a True (Some now)),
                            saved := Some (updated, stats r)\<rparr>))"

text \<open>The optional \<open>extraData\<close> of a game: the fields \<open>trackGamePlayed\<close> looks at.\<close>

record extraData =
  score :: "int option"
  perfectTTT :: bool
  playedPlus4 :: bool
  wonWithReverse :: bool
  noSnakesHit :: bool

definition update_stats :: "string \<Rightarrow> bool \<Rightarrow> extraData option \<Rightarrow> achievementStats \<Rightarrow> achievementStats" where
  "update_stats game won extra old =
     (let s0 = old\<lparr>totalGames := totalGames old + 1\<rparr>;
          s1 = (if won
                then (let s = s0\<lparr>totalWins := totalWins s0 + 1,
                                  currentWinStreak := currentWinStreak s0 + 1\<rparr>
                      in if currentWinStreak s > bestWinStreak s
                         then s\<lparr>bestWinStreak := currentWinStreak s\<rparr> else s)
                else s0\<lparr>currentWinStreak := 0\<rparr>);
          s2 = (case extra of
                  Some x \<Rightarrow>
                    (case extraData.score x of
                       Some v \<Rightarrow> if game = ''snake'' \<and> v \<noteq> 0 \<and> v > snakeHighScore s1
                                 then s1\<lparr>snakeHighScore := v\<rparr> else s1
                     | None \<Rightarrow> s1)
                | None \<Rightarrow> s1);
          s3 = (if game = ''tictactoe'' \<and> won then s2\<lparr>tttWins := tttWins s2 + 1\<rparr> else s2);
          s4 = (if game = ''snakeladders'' \<and> won then s3\<lparr>slWins := slWins s3 + 1\<rparr> else s3)
      in if game = ''uno'' \<and> won then s4\<lparr>unoWins := unoWins s4 + 1\<rparr> else s4)"

definition checkAchievements :: "achievementStats \<Rightarrow> extraData option \<Rightarrow> (string \<times> bool) list" where
  "checkAchievements newStats extra =
     [(''first_game'', totalGames newStats \<ge> 1),
      (''play_10'', totalGames newStats \<ge> 10),
      (''play_50'', totalGames newStats \<ge> 50),
      (''play_100'', totalGames newStats \<ge> 100),
      (''first_win'', totalWins newStats \<ge> 1),
      (''win_streak_3'', currentWinStreak newStats \<ge> 3),
      (''win_streak_5'', currentWinStreak newStats \<ge> 5),
      (''win_streak_10'', currentWinStreak newStats \<ge> 10),
      (''snake_50'', snakeHighScore newStats \<ge> 50),
      (''snake_100'', snakeHighScore newStats \<ge> 100),
      (''snake_200'', snakeHighScore newStats \<ge> 200),
      (''snake_500'', snakeHighScore newStats \<ge> 500),
      (''ttt_first_win'', tttWins newStats \<ge> 1),
      (''ttt_5_wins'', tttWins newStats \<ge> 5),
      (''ttt_20_wins'', tttWins newStats \<ge> 20),
      (''sl_first_win'', slWins newStats \<ge> 1),
      (''uno_first_win'', unoWins newStats \<ge> 1),
      (''uno_domination'', unoWins newStats \<ge> 10)]
     @ (case extra of
          None \<Rightarrow> []
        | Some x \<Rightarrow>
            (if perfectTTT x then [(''ttt_perfect'', True)] else [])
            @ (if playedPlus4 x then [(''uno_plus4'', True)] else [])
            @ (if wonWithReverse x then [(''uno_reverse'', True)] else [])
            @ (if noSnakesHit x then [(''sl_no_snakes'', True)] else []))"

text \<open>One round of the \<open>forEach\<close> over the checks: the achievements so far and the new
  unlocks so far.\<close>

definition process_check ::
  "nat \<Rightarrow> achievement list \<times> achievement list \<Rightarrow> string \<times> bool
     \<Rightarrow> achievement list \<times> achievement list" where
  "process_check now acc chk =
     (case acc of (updatedAchievements, newUnlocks) \<Rightarrow>
      case chk of (i, condition) \<Rightarrow>
        if condition
        then (case find (\<lambda>a. ach_id a = i) updatedAchievements of
                Some a \<Rightarrow>
                  if \<not> unlocked a
                  then (unlock i now updatedAchievements,
                        newUnlocks @ [with_state a True (Some now)])
                  else acc
              | None \<Rightarrow> acc)
        else acc)"

definition trackGamePlayed ::
  "string \<Rightarrow> bool \<Rightarrow> extraData option \<Rightarrow> nat \<Rightarrow> achievements_state \<Rightarrow> achievements_state
     \<Rightarrow> achievement list \<times> achievements_state" where
  "trackGamePlayed game won extra now r s =
     (let newStats = update_stats game won extra (stats r);
          (updatedAchievements, newUnlocks) =
             foldl (process_check now) (achievements r, []) (checkAchievements newStats extra);
          s1 = s\<lparr>stats := newStats\<rparr>;
          s2 = (if length newUnlocks > 0
                then s1\<lparr>achievements := updatedAchievements,
                         recentUnlock := Some (last newUnlocks)\<rparr>
                else s1)
      in (newUnlocks, s2\<lparr>saved := Some (updatedAchievements, newStats)\<rparr>))"

section \<open>Runs of submissions and what the store holds\<close>

definition snake_run :: "hook \<Rightarrow> lineraGameClient \<Rightarrow> int list \<Rightarrow> storage \<Rightarrow> storage" where
  "snake_run h c scores st = foldl (\<lambda>s sc. snd (submitSnakeScore h c s sc)) st scores"

definition ladders_run :: "hook \<Rightarrow> lineraGameClient \<Rightarrow> (bool \<times> int) list \<Rightarrow> storage \<Rightarrow> storage" where
  "ladders_run h c results st =
     foldl (\<lambda>s (won, position). snd (submitSnakeLaddersResult h c s won position)) st results"

text \<open>The stored high score of a player as every reader takes it,
  \<open>storedScores[address] || 0\<close>, and the stored \<open>bestPosition\<close>, if the player has stats.\<close>

definition stored_high_score :: "storage \<Rightarrow> string \<Rightarrow> nat" where
  "stored_high_score st a =
     (case linera_snake_scores st of None \<Rightarrow> 0 | Some storedScores \<Rightarrow> or0 (obj_get storedScores a))"

definition stored_bestPosition :: "storage \<Rightarrow> string \<Rightarrow> int option" where
  "stored_bestPosition st a =
     (case linera_snakeladders_stats st of
        None \<Rightarrow> None
      | Some storedStats \<Rightarrow> map_option bestPosition (obj_get storedStats a))"

section \<open>A demo session\<close>

text \<open>A connected hook in demo mode, the remote client never connected, and a store in
  which nothing has been written yet.\<close>

definition demo_wallet :: lineraWallet where
  "demo_wallet = \<lparr>address = ''0xab12'', chainId = ''chain-1'', isRealBlockchain = False\<rparr>"

definition demo_hook :: hook where
  "demo_hook = \<lparr>isConnected = True, wallet = Some demo_wallet, usingDemoMode = True\<rparr>"

definition no_client :: lineraGameClient where
  "no_client = \<lparr>client_isConnected = False, client_chainId = [], application = None\<rparr>"

definition empty_storage :: storage where
  "empty_storage =
     \<lparr>linera_snake_scores = Some [], linera_tictactoe_stats = Some [],
      linera_snakeladders_stats = Some [], linera_uno_stats = Some [],
      linera_profiles = Some [], linera_games_played = Some []\<rparr>"

text \<open>The same player after a snake score of 120, two wins and a loss at tic-tac-toe and
  a win at uno.\<close>

definition played_storage :: storage where
  "played_storage =
     \<lparr>linera_snake_scores = Some [(''0xab12'', 120)],
      linera_tictactoe_stats = Some [(''0xab12'', \<lparr>wins = 2, losses = 1\<rparr>)],
      linera_snakeladders_stats = Some [],
      linera_uno_stats = Some [(''0xab12'', \<lparr>wins = 1, losses = 0\<rparr>)],
      linera_profiles = Some [],
      linera_games_played = Some [(''0xab12'', 4)]\<rparr>"

text \<open>A session on the remote backend whose application throws on every call.\<close>

definition remote_wallet :: lineraWallet where
  "remote_wallet = \<lparr>address = ''e476187f'', chainId = ''e476187f'', isRealBlockchain = True\<rparr>"

definition remote_hook :: hook where
  "remote_hook = \<lparr>isConnected = True, wallet = Some remote_wallet, usingDemoMode = False\<rparr>"

definition failing_client :: lineraGameClient where
  "failing_client =
     \<lparr>client_isConnected = True, client_chainId = ''e476187f'', application = Some (\<lambda>q. None)\<rparr>"

section \<open>Runs of achievement calls\<close>

text \<open>A run in which the hook renders again after every call, so that each call is made
  from the render that shows what the previous call left.\<close>

datatype call =
    CheckAndUnlock string nat
  | TrackGamePlayed string bool "extraData option" nat

definition call_step :: "achievements_state \<Rightarrow> call \<Rightarrow> achievements_state" where
  "call_step s cl =
     (case cl of
        CheckAndUnlock i now \<Rightarrow> snd (checkAndUnlock i now s s)
      | TrackGamePlayed game won extra now \<Rightarrow> snd (trackGamePlayed game won extra now s s))"

definition calls_run :: "call list \<Rightarrow> achievements_state \<Rightarrow> achievements_state" where
  "calls_run cls s = foldl call_step s cls"

text \<open>The games of a session as \<open>trackGamePlayed\<close> gets them: game, outcome, extra data and
  the time of the call; again with a render after every call.\<close>

definition track_run ::
  "(string \<times> bool \<times> extraData option \<times> nat) list \<Rightarrow> achievements_state \<Rightarrow> achievements_state" where
  "track_run games s =
     foldl (\<lambda>s (game, won, extra, now). snd (trackGamePlayed game won extra now s s)) s games"

text \<open>The win streak after the first \<open>k\<close> games of a run.\<close>

definition streak_after ::
  "(string \<times> bool \<times> extraData option \<times> nat) list \<Rightarrow> achievements_state \<Rightarrow> nat \<Rightarrow> nat" where
  "streak_after games s k = currentWinStreak (stats (track_run (take k games) s))"


text \<open>What a round of the unlock loop preserves for an achievement \<open>a\<close>: identifiers stay
  distinct, \<open>a\<close> is still in the list, and no new unlock carries its identifier.\<close>

definition kept :: "achievement \<Rightarrow> achievement list \<times> achievement list \<Rightarrow> bool" where
  "kept a acc \<longleftrightarrow>
     distinct (map ach_id (fst acc)) \<and> a \<in> set (fst acc) \<and> ach_id a \<notin> ach_id ` set (snd acc)"

text \<open>Win, win, loss, win; the hook once its loading effect has run on an empty storage;
  and the hook after a first game, won at time 1000.\<close>

definition fresh :: achievements_state where
  "fresh = load (initial None)"

text \<open>The \<open>unlockedAt\<close> of the achievement with identifier \<open>i\<close>, in the state cell and in
  the stored item.\<close>

definition unlockedAt_of :: "string \<Rightarrow> achievement list \<Rightarrow> nat option list" where
  "unlockedAt_of i as = map unlockedAt (filter (\<lambda>a. ach_id a = i) as)"

definition stored_unlockedAt_of :: "string \<Rightarrow> achievements_state \<Rightarrow> nat option list" where
  "stored_unlockedAt_of i s =
     (case saved s of None \<Rightarrow> [] | Some (as, st) \<Rightarrow> unlockedAt_of i as)"

definition four_games :: "(string \<times> bool \<times> extraData option \<times> nat) list" where
  "four_games = [(''tictactoe'', True, None, 1000), (''uno'', True, None, 2000),
                 (''uno'', False, None, 3000), (''snake'', True, None, 4000)]"

definition first_win_1000 :: achievement where
  "first_win_1000 =
     with_state (entry ''first_win'' ''Taste of Victory'' ''Win your first game'' General Common 15)
       True (Some 1000)"

definition after_first_win :: achievements_state where
  "after_first_win = snd (trackGamePlayed ''tictactoe'' True None 1000 fresh fresh)"



definition corrupt_storage :: storage where
  "corrupt_storage = played_storage\<lparr>linera_uno_stats := None\<rparr>"

definition ladder_storage :: storage where
  "ladder_storage = empty_storage\<lparr>linera_snakeladders_stats :=
      Some [(''0xab12'', \<lparr>wins = 1, losses = 0, bestPosition = 1\<rparr>)]\<rparr>"

definition uno_storage :: storage where
  "uno_storage = empty_storage\<lparr>linera_uno_stats := Some [(''0xab12'', \<lparr>wins = 1, losses = 0\<rparr>)]\<rparr>"

definition tictactoe_storage :: "nat \<Rightarrow> nat \<Rightarrow> storage" where
  "tictactoe_storage w l = empty_storage\<lparr>linera_tictactoe_stats :=
      Some [(''0xab12'', \<lparr>wins = w, losses = l\<rparr>)]\<rparr>"

definition won_1_of_3 :: storage where
  "won_1_of_3 = tictactoe_storage 1 2"

definition won_23_of_40 :: storage where
  "won_23_of_40 = tictactoe_storage 23 17"

section \<open>Basic facts\<close>

lemma or0_simps [simp]: "or0 None = 0" "or0 (Some n) = n"
  by (simp_all add: or0_def)

lemma obj_get_set: "obj_get (obj_set m k v) k' = (if k' = k then Some v else obj_get m k')"
  by (simp add: obj_get_def obj_set_def update_conv')

lemma demo_session:
  "connected_wallet demo_hook = Some demo_wallet" "\<not> remote demo_hook no_client"
  by (simp_all add: connected_wallet_def remote_def demo_hook_def no_client_def)

section \<open>The snake high score\<close>

lemma snake_step:
  assumes "connected_wallet h = Some w" and "\<not> remote h c"
    and "linera_snake_scores st \<noteq> None"
  shows "linera_snake_scores (snd (submitSnakeScore h c st sc)) \<noteq> None
       \<and> int (stored_high_score (snd (submitSnakeScore h c st sc)) (address w)) =
           max (int (stored_high_score st (address w))) sc"
  using assms
  by (auto simp: submitSnakeScore_def stored_high_score_def obj_get_set Let_def
      split: option.splits)

lemma snake_run_high:
  assumes "connected_wallet h = Some w" and "\<not> remote h c"
    and "linera_snake_scores st \<noteq> None"
  shows "linera_snake_scores (snake_run h c ss st) \<noteq> None
       \<and> int (stored_high_score (snake_run h c ss st) (address w)) =
           Max (insert (int (stored_high_score st (address w))) (set ss))"
proof (induction ss rule: rev_induct)
  case Nil
  then show ?case using assms by (simp add: snake_run_def)
next
  case (snoc s ss)
  have run: "snake_run h c (ss @ [s]) st = snd (submitSnakeScore h c (snake_run h c ss st) s)"
    by (simp add: snake_run_def)
  have mx: "Max (insert x (set (ss @ [s]))) = max (Max (insert x (set ss))) s" for x :: int
  proof -
    have "insert x (set (ss @ [s])) = insert s (insert x (set ss))" by auto
    then show ?thesis by (simp add: max.commute)
  qed
  from snake_step[OF assms(1,2), of "snake_run h c ss st" s] snoc.IH
  have ne: "linera_snake_scores (snake_run h c (ss @ [s]) st) \<noteq> None"
    and eq: "int (stored_high_score (snake_run h c (ss @ [s]) st) (address w)) =
             max (int (stored_high_score (snake_run h c ss st) (address w))) s"
    unfolding run by blast+
  from snoc.IH have "int (stored_high_score (snake_run h c ss st) (address w)) =
      Max (insert (int (stored_high_score st (address w))) (set ss))" by blast
  with eq mx show ?case using ne by presburger
qed

text \<open>
  C1, as the code has it. A player with no stored score submits the scores \<open>ss\<close> in demo
  mode. A score is stored only when it exceeds the current high score, read as 0 when
  missing, so the stored high score is the maximum of 0 and the submitted scores; it is the
  maximum of the submitted scores as soon as one of them is not negative; and one more
  submission never lowers it.
\<close>

theorem snake_high_score_max:
  assumes "connected_wallet h = Some w" and "\<not> remote h c"
    and "linera_snake_scores st = Some storedScores"
    and "obj_get storedScores (address w) = None"
  shows "int (stored_high_score (snake_run h c ss st) (address w)) = Max (insert 0 (set ss))
       \<and> ((\<exists>s \<in> set ss. 0 \<le> s) \<longrightarrow>
            int (stored_high_score (snake_run h c ss st) (address w)) = Max (set ss))
       \<and> stored_high_score (snake_run h c ss st) (address w)
           \<le> stored_high_score (snake_run h c (ss @ [sc]) st) (address w)"
proof -
  have st0: "stored_high_score st (address w) = 0"
    using assms(3,4) by (simp add: stored_high_score_def)
  have ne: "linera_snake_scores st \<noteq> None" using assms(3) by simp
  have a: "int (stored_high_score (snake_run h c ss st) (address w)) = Max (insert 0 (set ss))" for ss
    using snake_run_high[OF assms(1,2) ne, of ss] by (simp add: st0)
  have b: "Max (insert 0 (set ss)) = Max (set ss)" if "\<exists>s \<in> set ss. 0 \<le> s"
  proof -
    from that obtain s where s: "s \<in> set ss" "0 \<le> s" by blast
    then have "set ss \<noteq> {}" by auto
    moreover have "s \<le> Max (set ss)" using s(1) by (intro Max_ge) auto
    then have "0 \<le> Max (set ss)" using s(2) by linarith
    ultimately show ?thesis by (simp add: max_def)
  qed
  have c: "Max (insert 0 (set ss)) \<le> Max (insert 0 (set (ss @ [sc])))"
    by (rule Max_mono) auto
  have d: "stored_high_score (snake_run h c ss st) (address w)
           \<le> stored_high_score (snake_run h c (ss @ [sc]) st) (address w)"
    using a[of ss] a[of "ss @ [sc]"] c by linarith
  have e: "int (stored_high_score (snake_run h c ss st) (address w)) = Max (set ss)"
    if "\<exists>s \<in> set ss. 0 \<le> s"
    using a[of ss] b[OF that] by linarith
  show ?thesis using a[of ss] d e by blast
qed

text \<open>The example of the specification: 10, then 7, then 25 leaves 25.\<close>

theorem snake_high_score_max_witness:
  "connected_wallet demo_hook = Some demo_wallet \<and> \<not> remote demo_hook no_client
   \<and> linera_snake_scores empty_storage = Some []
   \<and> obj_get [] (address demo_wallet) = (None :: nat option)
   \<and> (\<exists>s \<in> set [10, 7, 25 :: int]. 0 \<le> s)
   \<and> stored_high_score (snake_run demo_hook no_client [10, 7, 25] empty_storage)
        (address demo_wallet) = 25"
proof -
  have h: "linera_snake_scores empty_storage = Some []"
    "obj_get [] (address demo_wallet) = (None :: nat option)"
    by (simp_all add: empty_storage_def obj_get_def)
  from snake_high_score_max[OF demo_session h, of "[10, 7, 25]"] demo_session h
  show ?thesis by simp
qed

text \<open>A single submission of \<open>- 5\<close> is not stored: the high score reads 0, not the
  maximum \<open>- 5\<close> of the submitted scores.\<close>

theorem snake_high_score_negative:
  "stored_high_score (snake_run demo_hook no_client [- 5] empty_storage) (address demo_wallet) = 0
   \<and> int (stored_high_score (snake_run demo_hook no_client [- 5] empty_storage)
            (address demo_wallet)) \<noteq> Max (set [- 5])"
  by (simp add: snake_run_def submitSnakeScore_def connected_wallet_def remote_def demo_hook_def
      no_client_def empty_storage_def demo_wallet_def stored_high_score_def obj_get_def obj_set_def)

section \<open>The best position at snakes and ladders\<close>

lemma ladders_step:
  assumes "connected_wallet h = Some w" and "\<not> remote h c"
    and "linera_snakeladders_stats st \<noteq> None"
  shows "linera_snakeladders_stats (snd (submitSnakeLaddersResult h c st won p)) \<noteq> None
       \<and> stored_bestPosition (snd (submitSnakeLaddersResult h c st won p)) (address w) =
           Some (let old = (case stored_bestPosition st (address w) of None \<Rightarrow> 4 | Some b \<Rightarrow> b)
                 in if p < old then p else old)"
  using assms
  by (auto simp: submitSnakeLaddersResult_def stored_bestPosition_def obj_get_set Let_def
      count_result_def split: option.splits)

lemma ladders_run_readable:
  assumes "connected_wallet h = Some w" and "\<not> remote h c"
    and "linera_snakeladders_stats st \<noteq> None"
  shows "linera_snakeladders_stats (ladders_run h c rs st) \<noteq> None"
proof (induction rs rule: rev_induct)
  case Nil
  then show ?case using assms by (simp add: ladders_run_def)
next
  case (snoc x rs)
  obtain won p where x: "x = (won, p)" by (cases x)
  show ?case
    using ladders_step[OF assms(1,2) snoc.IH, of won p]
    by (simp add: ladders_run_def x)
qed

text \<open>
  C10. In demo mode, after any run of results, one more result with position \<open>p\<close> leaves
  the player's \<open>bestPosition\<close> at \<open>p\<close> if \<open>p\<close> is strictly smaller than the value before
  and at that value otherwise, where the value before is 4 for a player without stats. So
  the field never increases once it exists.
\<close>

theorem bestPosition_only_decreases:
  assumes "connected_wallet h = Some w" and "\<not> remote h c"
    and "linera_snakeladders_stats st \<noteq> None"
  shows "stored_bestPosition (ladders_run h c (rs @ [(won, p)]) st) (address w) =
           Some (let old = (case stored_bestPosition (ladders_run h c rs st) (address w) of
                              None \<Rightarrow> 4 | Some b \<Rightarrow> b)
                 in if p < old then p else old)
       \<and> (\<forall>b. stored_bestPosition (ladders_run h c rs st) (address w) = Some b \<longrightarrow>
              (\<exists>b'. stored_bestPosition (ladders_run h c (rs @ [(won, p)]) st) (address w) = Some b'
                    \<and> b' \<le> b))"
  using ladders_step[OF assms(1,2) ladders_run_readable[OF assms], of rs won p]
  by (simp add: ladders_run_def)

theorem bestPosition_only_decreases_witness:
  "connected_wallet demo_hook = Some demo_wallet \<and> \<not> remote demo_hook no_client
   \<and> linera_snakeladders_stats empty_storage \<noteq> None
   \<and> stored_bestPosition (ladders_run demo_hook no_client [] empty_storage)
        (address demo_wallet) = None
   \<and> stored_bestPosition (ladders_run demo_hook no_client ([] @ [(False, 6)]) empty_storage)
        (address demo_wallet) = Some 4
   \<and> stored_bestPosition (ladders_run demo_hook no_client [(False, 6), (True, 1)] empty_storage)
        (address demo_wallet) = Some 1"
proof -
  have h: "linera_snakeladders_stats empty_storage \<noteq> None"
    by (simp add: empty_storage_def)
  have none: "stored_bestPosition (ladders_run demo_hook no_client [] empty_storage)
        (address demo_wallet) = None"
    by (simp add: ladders_run_def stored_bestPosition_def empty_storage_def obj_get_def)
  from bestPosition_only_decreases[OF demo_session h, of "[]" False 6] none
  have one: "stored_bestPosition (ladders_run demo_hook no_client ([] @ [(False, 6)]) empty_storage)
        (address demo_wallet) = Some 4"
    by simp
  from bestPosition_only_decreases[OF demo_session h, of "[(False, 6)]" True 1] one
  have two: "stored_bestPosition (ladders_run demo_hook no_client [(False, 6), (True, 1)]
        empty_storage) (address demo_wallet) = Some 1"
    by simp
  show ?thesis using demo_session h none one two by blast
qed

section \<open>Level and experience\<close>

text \<open>
  C2. In demo mode, for every readable store and every player asked for, \<open>getUserProfile\<close>
  returns a profile whose high score and wins are the stored ones and whose level and
  experience follow the progression formula: with \<open>totalWins\<close> the tic-tac-toe, snakes and
  ladders and uno wins together and \<open>totalXp = snakeHighScore + totalWins * 50\<close>, the level is
  \<open>totalXp div 500 + 1\<close> and the experience \<open>totalXp mod 500\<close>.
\<close>

theorem profile_progression:
  assumes "\<not> remote h c" and "target_address h a = Some t"
    and "read_all st = Some (storedScores, storedTTT, storedSL, storedUno, storedProfiles, storedGames)"
  shows "\<exists>p. getUserProfile h c st a = Some p
       \<and> userProfile.snakeHighScore p = or0 (obj_get storedScores t)
       \<and> tictactoeWins p = wins (stats_of storedTTT t)
       \<and> snakeLaddersWins p = wins (stats_of storedSL t)
       \<and> userProfile.unoWins p = wins (stats_of storedUno t)
       \<and> (let totalWins = tictactoeWins p + snakeLaddersWins p + userProfile.unoWins p;
               totalXp = userProfile.snakeHighScore p + totalWins * 50
           in level p = totalXp div 500 + 1 \<and> xp p = totalXp mod 500)"
  using assms by (simp add: getUserProfile_def Let_def)

text \<open>The example of the specification: a high score of 120 and three wins give level 1
  and 270 experience points.\<close>

theorem profile_progression_witness:
  "\<not> remote demo_hook no_client \<and> target_address demo_hook None = Some ''0xab12''
   \<and> (\<exists>p. getUserProfile demo_hook no_client played_storage None = Some p
        \<and> userProfile.snakeHighScore p = 120
        \<and> tictactoeWins p + snakeLaddersWins p + userProfile.unoWins p = 3
        \<and> level p = 1 \<and> xp p = 270)"
proof -
  have t: "target_address demo_hook None = Some ''0xab12''"
    by (simp add: target_address_def demo_hook_def demo_wallet_def)
  have r: "read_all played_storage =
      Some ([(''0xab12'', 120)], [(''0xab12'', \<lparr>wins = 2, losses = 1\<rparr>)], [],
            [(''0xab12'', \<lparr>wins = 1, losses = 0\<rparr>)], [], [(''0xab12'', 4)])"
    by (simp add: read_all_def played_storage_def)
  from profile_progression[OF demo_session(2) t r] obtain p where
    "getUserProfile demo_hook no_client played_storage None = Some p"
    "userProfile.snakeHighScore p = 120" "tictactoeWins p = 2" "snakeLaddersWins p = 0"
    "userProfile.unoWins p = 1"
    "level p = (userProfile.snakeHighScore p
                + (tictactoeWins p + snakeLaddersWins p + userProfile.unoWins p) * 50) div 500 + 1"
    "xp p = (userProfile.snakeHighScore p
             + (tictactoeWins p + snakeLaddersWins p + userProfile.unoWins p) * 50) mod 500"
    by (auto simp: Let_def obj_get_def stats_of_def no_stats_def)
  then show ?thesis using demo_session(2) t by auto
qed

section \<open>A failed remote call\<close>

lemma target_address_nonempty: "target_address h a = Some t \<Longrightarrow> t \<noteq> []"
  by (auto simp: target_address_def Let_def split: option.splits if_splits)

text \<open>
  C9. When the hook is connected and its calls go to the remote client, a mutation whose
  answer is null or carries no data makes the operation return \<open>false\<close>, a failed profile
  query makes \<open>getUserProfile\<close> return \<open>null\<close>, and in every case, failed or not, the local
  store is left exactly as it was: nothing is redirected to it.
\<close>

theorem remote_failure_stays_remote:
  assumes "connected_wallet h = Some w" and "remote h c"
  shows "(\<not> has_data (mutate c (SUBMIT_SNAKE_SCORE sc)) \<longrightarrow>
            submitSnakeScore h c st sc = (False, st))
       \<and> (\<not> has_data (mutate c (SUBMIT_TICTACTOE_RESULT won None)) \<longrightarrow>
            submitTicTacToeResult h c st won = (False, st))
       \<and> (\<not> has_data (mutate c (SUBMIT_SNAKELADDERS_RESULT won position)) \<longrightarrow>
            submitSnakeLaddersResult h c st won position = (False, st))
       \<and> (\<not> has_data (mutate c (SUBMIT_UNO_RESULT won)) \<longrightarrow>
            submitUnoResult h c st won = (False, st))
       \<and> (\<not> has_data (mutate c (UPDATE_PROFILE name av)) \<longrightarrow>
            updateProfile h c st name av = (False, st))
       \<and> (\<forall>t. target_address h a = Some t \<and> \<not> has_data (query c (GET_USER_PROFILE t)) \<longrightarrow>
            getUserProfile h c st a = None)
       \<and> snd (submitSnakeScore h c st sc) = st
       \<and> snd (submitTicTacToeResult h c st won) = st
       \<and> snd (submitSnakeLaddersResult h c st won position) = st
       \<and> snd (submitUnoResult h c st won) = st
       \<and> snd (updateProfile h c st name av) = st"
  using assms
  by (auto simp: submitSnakeScore_def submitTicTacToeResult_def submitSnakeLaddersResult_def
      submitUnoResult_def updateProfile_def getUserProfile_def client_submitSnakeScore_def
      client_submitTicTacToeResult_def client_submitSnakeLaddersResult_def
      client_submitUnoResult_def client_updateProfile_def client_getUserProfile_def
      has_data_def Let_def dest: target_address_nonempty split: option.splits)

theorem remote_failure_stays_remote_witness:
  "connected_wallet remote_hook = Some remote_wallet \<and> remote remote_hook failing_client
   \<and> \<not> has_data (mutate failing_client (SUBMIT_SNAKE_SCORE 30))
   \<and> submitSnakeScore remote_hook failing_client empty_storage 30 = (False, empty_storage)
   \<and> target_address remote_hook None = Some ''e476187f''
   \<and> \<not> has_data (query failing_client (GET_USER_PROFILE ''e476187f''))
   \<and> getUserProfile remote_hook failing_client empty_storage None = None"
proof -
  have w: "connected_wallet remote_hook = Some remote_wallet"
    by (simp add: connected_wallet_def remote_hook_def)
  have r: "remote remote_hook failing_client"
    by (simp add: remote_def remote_hook_def failing_client_def)
  have f: "\<not> has_data (mutate failing_client q)" "\<not> has_data (query failing_client q)" for q
    by (simp_all add: has_data_def mutate_def query_def failing_client_def)
  have t: "target_address remote_hook None = Some ''e476187f''"
    by (simp add: target_address_def remote_hook_def remote_wallet_def)
  from remote_failure_stays_remote[OF w r, where sc = 30 and a = None and st = empty_storage] f t
  have "submitSnakeScore remote_hook failing_client empty_storage 30 = (False, empty_storage)"
    "getUserProfile remote_hook failing_client empty_storage None = None"
    by blast+
  then show ?thesis using w r f t by simp
qed

section \<open>Win streaks\<close>

lemma stats_trackGamePlayed:
  "stats (snd (trackGamePlayed game won extra now r s)) = update_stats game won extra (stats r)"
  by (simp add: trackGamePlayed_def Let_def split: prod.splits)

lemma streak_update:
  "currentWinStreak (update_stats game won extra old) =
     (if won then currentWinStreak old + 1 else 0)"
  "bestWinStreak (update_stats game won extra old) =
     max (bestWinStreak old) (currentWinStreak (update_stats game won extra old))"
  by (auto simp: update_stats_def Let_def split: option.splits)

lemma track_run_snoc:
  "track_run (gs @ [(game, won, extra, now)]) s =
     snd (trackGamePlayed game won extra now (track_run gs s) (track_run gs s))"
  by (simp add: track_run_def)

lemma best_is_max:
  assumes "bestWinStreak (stats s) = currentWinStreak (stats s)"
  shows "bestWinStreak (stats (track_run gs s)) = Max (streak_after gs s ` {..length gs})"
proof (induction gs rule: rev_induct)
  case Nil
  then show ?case using assms by (simp add: streak_after_def track_run_def)
next
  case (snoc x gs)
  obtain game won extra now where x: "x = (game, won, extra, now)" by (cases x) auto
  have pre: "streak_after (gs @ [x]) s k = streak_after gs s k" if "k \<le> length gs" for k
    using that by (simp add: streak_after_def)
  have img: "streak_after (gs @ [x]) s ` {..length (gs @ [x])} =
      insert (streak_after (gs @ [x]) s (Suc (length gs))) (streak_after gs s ` {..length gs})"
    using pre by (auto simp: atMost_Suc image_iff)
  have last: "streak_after (gs @ [x]) s (Suc (length gs)) =
      currentWinStreak (stats (track_run (gs @ [x]) s))"
    by (simp add: streak_after_def)
  have "bestWinStreak (stats (track_run (gs @ [x]) s)) =
      max (bestWinStreak (stats (track_run gs s))) (currentWinStreak (stats (track_run (gs @ [x]) s)))"
    unfolding x track_run_snoc stats_trackGamePlayed by (rule streak_update(2))
  also have "\<dots> = max (Max (streak_after gs s ` {..length gs}))
      (streak_after (gs @ [x]) s (Suc (length gs)))"
    by (simp only: snoc.IH last)
  also have "\<dots> = Max (streak_after (gs @ [x]) s ` {..length (gs @ [x])})"
    unfolding img by (simp add: max.commute)
  finally show ?case .
qed

text \<open>
  With a render after every call: from a fresh hook, after any games \<open>gs\<close>, one more game
  makes the current win streak one more than it was if the game is won and 0 if it is
  lost; and the best win streak after \<open>gs\<close> is the largest value the current streak has
  had at any point of the run, its start included.
\<close>

lemma win_streak_rerendered:
  assumes "stats s = no_games"
  shows "streak_after (gs @ [(game, won, extra, now)]) s (Suc (length gs)) =
           (if won then streak_after (gs @ [(game, won, extra, now)]) s (length gs) + 1 else 0)
       \<and> bestWinStreak (stats (track_run gs s)) = Max (streak_after gs s ` {..length gs})"
proof -
  have "bestWinStreak (stats s) = currentWinStreak (stats s)"
    using assms by (simp add: no_games_def)
  from best_is_max[OF this] show ?thesis
    by (simp add: streak_after_def track_run_snoc stats_trackGamePlayed streak_update(1))
qed

lemma stats_track_run:
  "stats (track_run gs s) = foldl (\<lambda>st (game, won, extra, now). update_stats game won extra st) (stats s) gs"
  by (induction gs rule: rev_induct) (auto simp: track_run_def stats_trackGamePlayed)

text \<open>Win, win, loss, win, with a render after every call, gives the streaks 1, 2, 0, 1
  and a best streak of 2.\<close>

lemma win_streak_example:
  "stats (load (initial None)) = no_games
   \<and> map (streak_after four_games (load (initial None))) [1, 2, 3, 4] = [1, 2, 0, 1]
   \<and> bestWinStreak (stats (track_run four_games (load (initial None)))) = 2"
proof -
  have h: "stats (load (initial None)) = no_games"
    by (simp add: load_def initial_def)
  have s: "map (streak_after four_games (load (initial None))) [0, 1, 2, 3, 4] = [0, 1, 2, 0, 1]"
    by (simp add: streak_after_def stats_track_run h four_games_def update_stats_def no_games_def)
  have i: "{..length four_games} = set [0, 1, 2, 3, 4]"
    by (auto simp: four_games_def)
  have "streak_after four_games (load (initial None)) ` {..length four_games} = {0, 1, 2}"
    unfolding i using s by auto
  with win_streak_rerendered[OF h, of four_games] h s show ?thesis by simp
qed

text \<open>
  C3, at two wins reported from one render. Each win should raise the current win streak by
  one. Both calls read the statistics of the render they were made from, so the second win
  starts from the same numbers as the first: after the two wins the streak is 1, not 2,
  and one game and one win are counted.
\<close>

theorem two_wins_one_render:
  "currentWinStreak (stats (snd (trackGamePlayed ''tictactoe'' True None 1000 fresh fresh))) = 1
   \<and> currentWinStreak (stats (snd (trackGamePlayed ''tictactoe'' True None 2000 fresh
        (snd (trackGamePlayed ''tictactoe'' True None 1000 fresh fresh))))) = 1
   \<and> totalGames (stats (snd (trackGamePlayed ''tictactoe'' True None 2000 fresh
        (snd (trackGamePlayed ''tictactoe'' True None 1000 fresh fresh))))) = 1
   \<and> totalWins (stats (snd (trackGamePlayed ''tictactoe'' True None 2000 fresh
        (snd (trackGamePlayed ''tictactoe'' True None 1000 fresh fresh))))) = 1"
  by (simp add: stats_trackGamePlayed update_stats_def fresh_def load_def initial_def no_games_def)

section \<open>Unlocked achievements stay unlocked\<close>

lemma ids_unlock: "map ach_id (unlock i now as) = map ach_id as"
  by (induction as) (auto simp: unlock_def with_state_def)

lemma find_id:
  assumes "find (\<lambda>a. ach_id a = i) as = Some b"
  shows "b \<in> set as" and "ach_id b = i"
  using assms by (auto simp: find_Some_iff)

lemma same_id_same_entry:
  assumes "distinct (map ach_id as)" and "a \<in> set as" and "b \<in> set as"
    and "ach_id a = ach_id b"
  shows "a = b"
  using assms by (meson distinct_map inj_onD)

lemma unlock_keeps:
  assumes "a \<in> set as" and "ach_id a \<noteq> i"
  shows "a \<in> set (unlock i now as)"
  using assms by (force simp: unlock_def)

lemma process_check_kept:
  assumes "unlocked a" and "kept a acc"
  shows "kept a (process_check now acc chk)"
proof -
  obtain upd new where acc: "acc = (upd, new)" by (cases acc)
  obtain i cond where chk: "chk = (i, cond)" by (cases chk)
  show ?thesis
  proof (cases "cond \<and> (\<exists>b. find (\<lambda>a. ach_id a = i) upd = Some b \<and> \<not> unlocked b)")
    case True
    then obtain b where b: "find (\<lambda>a. ach_id a = i) upd = Some b" "\<not> unlocked b" by blast
    have ne: "ach_id a \<noteq> i"
    proof
      assume "ach_id a = i"
      with find_id[OF b(1)] assms(2) have "a = b"
        by (auto simp: kept_def acc intro: same_id_same_entry)
      with assms(1) b(2) show False by simp
    qed
    have "process_check now acc chk = (unlock i now upd, new @ [with_state b True (Some now)])"
      using True b by (simp add: process_check_def acc chk)
    moreover have "ach_id (with_state b True (Some now)) = i"
      using find_id(2)[OF b(1)] by (simp add: with_state_def)
    ultimately show ?thesis
      using assms(2) ne by (auto simp: kept_def acc ids_unlock intro: unlock_keeps)
  next
    case False
    then have "process_check now acc chk = acc"
      by (auto simp: process_check_def acc chk split: option.splits)
    with assms(2) show ?thesis by simp
  qed
qed

lemma process_checks_kept:
  assumes "unlocked a" and "kept a acc"
  shows "kept a (foldl (process_check now) acc chks)"
  using assms(2)
proof (induction chks arbitrary: acc)
  case Nil
  then show ?case by simp
next
  case (Cons chk chks)
  from Cons.IH[OF process_check_kept[OF assms(1) Cons.prems]] show ?case by simp
qed

lemma trackGamePlayed_kept:
  assumes "distinct (map ach_id (achievements s))" and "a \<in> set (achievements s)"
    and "unlocked a"
  shows "distinct (map ach_id (achievements (snd (trackGamePlayed game won extra now s s))))"
    and "a \<in> set (achievements (snd (trackGamePlayed game won extra now s s)))"
    and "ach_id a \<notin> ach_id ` set (fst (trackGamePlayed game won extra now s s))"
proof -
  let ?r = "foldl (process_check now) (achievements s, [])
              (checkAchievements (update_stats game won extra (stats s)) extra)"
  have "kept a (achievements s, [])" using assms(1,2) by (simp add: kept_def)
  from process_checks_kept[OF assms(3) this] have k: "kept a ?r" .
  obtain upd new where r: "?r = (upd, new)" by (cases ?r)
  have t: "trackGamePlayed game won extra now s s =
      (new, (if length new > 0
             then s\<lparr>stats := update_stats game won extra (stats s), achievements := upd,
                     recentUnlock := Some (last new)\<rparr>
             else s\<lparr>stats := update_stats game won extra (stats s)\<rparr>)
            \<lparr>saved := Some (upd, update_stats game won extra (stats s))\<rparr>)"
    by (simp add: trackGamePlayed_def Let_def r)
  show "distinct (map ach_id (achievements (snd (trackGamePlayed game won extra now s s))))"
    and "a \<in> set (achievements (snd (trackGamePlayed game won extra now s s)))"
    and "ach_id a \<notin> ach_id ` set (fst (trackGamePlayed game won extra now s s))"
    using k assms(1,2) by (auto simp: t kept_def r)
qed

lemma checkAndUnlock_kept:
  assumes "distinct (map ach_id (achievements s))" and "a \<in> set (achievements s)"
    and "unlocked a"
  shows "distinct (map ach_id (achievements (snd (checkAndUnlock i now s s))))"
    and "a \<in> set (achievements (snd (checkAndUnlock i now s s)))"
    and "checkAndUnlock (ach_id a) now s s = (False, s)"
proof -
  have own: "find (\<lambda>x. ach_id x = ach_id a) (achievements s) = Some a"
  proof (cases "find (\<lambda>x. ach_id x = ach_id a) (achievements s)")
    case None
    with assms(2) show ?thesis by (auto simp: find_None_iff)
  next
    case (Some b)
    from find_id[OF Some] assms(1,2) have "a = b" by (auto intro: same_id_same_entry)
    with Some show ?thesis by simp
  qed
  show "checkAndUnlock (ach_id a) now s s = (False, s)"
    using own assms(3) by (simp add: checkAndUnlock_def)
  show "distinct (map ach_id (achievements (snd (checkAndUnlock i now s s))))"
    using assms(1) by (auto simp: checkAndUnlock_def Let_def ids_unlock split: option.splits)
  show "a \<in> set (achievements (snd (checkAndUnlock i now s s)))"
  proof (cases "ach_id a = i")
    case True
    with own assms(2,3) show ?thesis by (simp add: checkAndUnlock_def)
  next
    case False
    with assms(2) show ?thesis
      by (auto simp: checkAndUnlock_def Let_def split: option.splits intro: unlock_keeps)
  qed
qed

lemma calls_run_kept:
  assumes "distinct (map ach_id (achievements s))" and "a \<in> set (achievements s)"
    and "unlocked a"
  shows "distinct (map ach_id (achievements (calls_run cls s)))
       \<and> a \<in> set (achievements (calls_run cls s))"
proof (induction cls rule: rev_induct)
  case Nil
  then show ?case using assms by (simp add: calls_run_def)
next
  case (snoc cl cls)
  then show ?case
    using checkAndUnlock_kept(1,2)[OF _ _ assms(3), of "calls_run cls s"]
      trackGamePlayed_kept(1,2)[OF _ _ assms(3), of "calls_run cls s"]
    by (cases cl) (simp_all add: calls_run_def call_step_def)
qed

text \<open>
  With a render after every call: let \<open>a\<close> be an unlocked achievement of a state whose
  identifiers are distinct, as they are in every state the hook reaches. After any run of
  \<open>checkAndUnlock\<close> and \<open>trackGamePlayed\<close> calls \<open>a\<close> is still in the list, unchanged:
  unlocked, with the \<open>unlockedAt\<close> it had. \<open>checkAndUnlock\<close> on its identifier then returns
  false and changes nothing, and no \<open>trackGamePlayed\<close> call reports it among its new
  unlocks.
\<close>

lemma unlock_is_final_rerendered:
  assumes "distinct (map ach_id (achievements s))" and "a \<in> set (achievements s)"
    and "unlocked a"
  shows "a \<in> set (achievements (calls_run cls s))
       \<and> distinct (map ach_id (achievements (calls_run cls s)))
       \<and> checkAndUnlock (ach_id a) now (calls_run cls s) (calls_run cls s) = (False, calls_run cls s)
       \<and> ach_id a \<notin> ach_id ` set (fst (trackGamePlayed game won extra now (calls_run cls s) (calls_run cls s)))"
  using calls_run_kept[OF assms, of cls]
    checkAndUnlock_kept(3)[OF _ _ assms(3), of "calls_run cls s" now]
    trackGamePlayed_kept(3)[OF _ _ assms(3), of "calls_run cls s" game won extra now]
  by blast


lemma distinct_catalogue: "distinct (map ach_id ALL_ACHIEVEMENTS)"
  by (simp add: ALL_ACHIEVEMENTS_def entry_def)

lemma ids_load: "map ach_id (achievements (load s)) = map ach_id ALL_ACHIEVEMENTS"
  by (auto simp: load_def with_state_def split: option.splits prod.splits)

lemma ids_process_check:
  "map ach_id (fst (process_check now acc chk)) = map ach_id (fst acc)"
  by (auto simp: process_check_def ids_unlock split: prod.splits option.splits)

lemma ids_process_checks:
  "map ach_id (fst (foldl (process_check now) acc chks)) = map ach_id (fst acc)"
  by (induction chks arbitrary: acc) (simp_all add: ids_process_check)

lemma ids_trackGamePlayed:
  "map ach_id (achievements (snd (trackGamePlayed game won extra now s s))) =
     map ach_id (achievements s)"
  using ids_process_checks[of now "(achievements s, [])"
      "checkAchievements (update_stats game won extra (stats s)) extra"]
  by (auto simp: trackGamePlayed_def Let_def split: prod.splits)

lemma first_win_there: "first_win_1000 \<in> set (achievements after_first_win)"
  by code_simp

text \<open>\<open>first_win\<close>, unlocked at time 1000 by a first win, keeps that time through a
  second win and a direct \<open>checkAndUnlock\<close>, each made after a render.\<close>

lemma unlock_is_final_example:
  "distinct (map ach_id (achievements after_first_win))
   \<and> first_win_1000 \<in> set (achievements after_first_win)
   \<and> unlocked first_win_1000 \<and> unlockedAt first_win_1000 = Some 1000
   \<and> first_win_1000 \<in> set (achievements
        (calls_run [TrackGamePlayed ''uno'' True None 2000, CheckAndUnlock ''first_win'' 3000]
           after_first_win))"
proof -
  have d: "distinct (map ach_id (achievements after_first_win))"
    by (simp add: after_first_win_def fresh_def ids_trackGamePlayed ids_load distinct_catalogue)
  have u: "unlocked first_win_1000" "unlockedAt first_win_1000 = Some 1000"
    by (simp_all add: first_win_1000_def with_state_def)
  from unlock_is_final_rerendered[OF d first_win_there u(1)] d first_win_there u show ?thesis by blast
qed

lemma first_unlock:
  "fst (checkAndUnlock ''first_win'' 1000 fresh fresh) = True"
  "unlockedAt_of ''first_win'' (achievements (snd (checkAndUnlock ''first_win'' 1000 fresh fresh)))
     = [Some 1000]"
  "stored_unlockedAt_of ''first_win'' (snd (checkAndUnlock ''first_win'' 1000 fresh fresh))
     = [Some 1000]"
  by code_simp+

lemma second_unlock:
  "fst (checkAndUnlock ''first_win'' 2000 fresh
          (snd (checkAndUnlock ''first_win'' 1000 fresh fresh))) = True"
  "unlockedAt_of ''first_win'' (achievements (snd (checkAndUnlock ''first_win'' 2000 fresh
          (snd (checkAndUnlock ''first_win'' 1000 fresh fresh))))) = [Some 2000]"
  "stored_unlockedAt_of ''first_win'' (snd (checkAndUnlock ''first_win'' 2000 fresh
          (snd (checkAndUnlock ''first_win'' 1000 fresh fresh)))) = [Some 2000]"
  by code_simp+

lemma second_track:
  "''first_win'' \<in> ach_id ` set (fst (trackGamePlayed ''uno'' True None 2000 fresh
          (snd (trackGamePlayed ''uno'' True None 1000 fresh fresh))))"
  "unlockedAt_of ''first_win'' (achievements (snd (trackGamePlayed ''uno'' True None 1000 fresh fresh)))
     = [Some 1000]"
  "unlockedAt_of ''first_win'' (achievements (snd (trackGamePlayed ''uno'' True None 2000 fresh
          (snd (trackGamePlayed ''uno'' True None 1000 fresh fresh))))) = [Some 2000]"
  by code_simp+

text \<open>
  C4, at two calls from one render. An unlocked achievement should not be unlocked again
  nor have its \<open>unlockedAt\<close> rewritten. Both calls look the achievement up in the list of
  the render they were made from, where it is still locked: the second
  \<open>checkAndUnlock\<close> returns true again and the time 1000 of the first unlock is replaced by
  2000, in the state cell and in the stored item; a second \<open>trackGamePlayed\<close> reports
  \<open>first_win\<close> among its new unlocks again and rewrites its time likewise.
\<close>

theorem one_render_unlocks_twice:
  "fst (checkAndUnlock ''first_win'' 1000 fresh fresh) = True
   \<and> unlockedAt_of ''first_win'' (achievements (snd (checkAndUnlock ''first_win'' 1000 fresh fresh)))
       = [Some 1000]
   \<and> fst (checkAndUnlock ''first_win'' 2000 fresh
          (snd (checkAndUnlock ''first_win'' 1000 fresh fresh))) = True
   \<and> unlockedAt_of ''first_win'' (achievements (snd (checkAndUnlock ''first_win'' 2000 fresh
          (snd (checkAndUnlock ''first_win'' 1000 fresh fresh))))) = [Some 2000]
   \<and> stored_unlockedAt_of ''first_win'' (snd (checkAndUnlock ''first_win'' 2000 fresh
          (snd (checkAndUnlock ''first_win'' 1000 fresh fresh)))) = [Some 2000]
   \<and> ''first_win'' \<in> ach_id ` set (fst (trackGamePlayed ''uno'' True None 2000 fresh
          (snd (trackGamePlayed ''uno'' True None 1000 fresh fresh))))
   \<and> unlockedAt_of ''first_win'' (achievements (snd (trackGamePlayed ''uno'' True None 2000 fresh
          (snd (trackGamePlayed ''uno'' True None 1000 fresh fresh))))) = [Some 2000]"
  using first_unlock second_unlock second_track by blast

section \<open>The leaderboard\<close>

lemma Set_from_acc:
  "distinct acc \<Longrightarrow>
   distinct (foldl (\<lambda>acc x. if x \<in> set acc then acc else acc @ [x]) acc xs)
   \<and> set (foldl (\<lambda>acc x. if x \<in> set acc then acc else acc @ [x]) acc xs) = set acc \<union> set xs"
  by (induction xs arbitrary: acc) auto

lemma distinct_Set_from: "distinct (Set_from xs)"
  using Set_from_acc[of "[]" xs] by (simp add: Set_from_def)

lemma set_Set_from: "set (Set_from xs) = set xs"
  using Set_from_acc[of "[]" xs] by (simp add: Set_from_def)

lemma slice0_take: "\<exists>n. slice0 limit xs = take n xs"
  by (auto simp: slice0_def)

lemma address_entry [simp]: "playerAddress (leaderboard_entry gameType stores a) = a"
  by (simp add: leaderboard_entry_def Let_def split: prod.splits)

lemma length_rank_entries [simp]: "length (rank_entries es) = length es"
  by (simp add: rank_entries_def)

lemma rank_entries_nth:
  "i < length es \<Longrightarrow>
   rank_entries es ! i = (sort_key (\<lambda>e. - int (leaderboardEntry.score e)) es ! i)\<lparr>rank := i + 1\<rparr>"
  by (simp add: rank_entries_def nth_enumerate_eq)

lemma rank_entries_Nil [simp]: "rank_entries es = [] \<longleftrightarrow> es = []"
  using length_rank_entries[of es] by (simp only: length_0_conv[symmetric])

lemma demo_board:
  assumes "\<not> remote h c" and "read_all st = Some stores" and "known_players stores \<noteq> []"
  shows "getLeaderboard h c st gameType lim_opt =
           slice0 (case lim_opt of None \<Rightarrow> 10 | Some n \<Rightarrow> n)
             (rank_entries (map (leaderboard_entry gameType stores) (known_players stores)))"
  using assms by (simp add: getLeaderboard_def Let_def)




lemma board_entry:
  assumes "\<not> remote h c" and "read_all st = Some stores" and "known_players stores \<noteq> []"
    and "e \<in> set (getLeaderboard h c st gameType lim_opt)"
  shows "\<exists>r. e = (leaderboard_entry gameType stores (playerAddress e))\<lparr>rank := r\<rparr>"
proof -
  let ?E = "map (leaderboard_entry gameType stores) (known_players stores)"
  obtain n where "getLeaderboard h c st gameType lim_opt = take n (rank_entries ?E)"
    using slice0_take[of _ "rank_entries ?E"] demo_board[OF assms(1-3), of gameType lim_opt]
    by metis
  with assms(4) have "e \<in> set (rank_entries ?E)"
    by (auto dest: in_set_takeD)
  then obtain i where i: "i < length ?E" and "e = rank_entries ?E ! i"
    by (auto simp: in_set_conv_nth)
  then have e: "e = (sort_key (\<lambda>e. - int (leaderboardEntry.score e)) ?E ! i)\<lparr>rank := i + 1\<rparr>"
    by (simp add: rank_entries_nth)
  have "sort_key (\<lambda>e. - int (leaderboardEntry.score e)) ?E ! i \<in> set ?E"
    using i nth_mem[of i "sort_key (\<lambda>e. - int (leaderboardEntry.score e)) ?E"] by simp
  then obtain b where "sort_key (\<lambda>e. - int (leaderboardEntry.score e)) ?E ! i =
      leaderboard_entry gameType stores b" by auto
  with e have eb: "e = (leaderboard_entry gameType stores b)\<lparr>rank := i + 1\<rparr>" by simp
  have pb: "playerAddress e = b" by (subst eb) simp
  show ?thesis unfolding pb by (rule exI[of _ "i + 1"]) (rule eb)
qed

lemma single_board:
  assumes "\<not> remote h c" and "read_all st = Some stores" and "known_players stores = [a]"
  shows "getLeaderboard h c st gameType None = [(leaderboard_entry gameType stores a)\<lparr>rank := 1\<rparr>]"
proof -
  have "known_players stores \<noteq> []" using assms(3) by simp
  from demo_board[OF assms(1,2) this, of gameType None] show ?thesis
    by (simp add: assms(3) rank_entries_def slice0_def)
qed







section \<open>The placeholder board\<close>

lemma length_demo:
  "length (generateDemoLeaderboard gameType limit) = length (slice0 limit demoPlayers)"
  by (simp add: generateDemoLeaderboard_def)

lemma nth_demo:
  assumes "i < length (slice0 limit demoPlayers)"
  shows "playerName (generateDemoLeaderboard gameType limit ! i) = fst (slice0 limit demoPlayers ! i)"
    and "rank (generateDemoLeaderboard gameType limit ! i) = i + 1"
  using assms by (simp_all add: generateDemoLeaderboard_def nth_enumerate_eq split: prod.splits)

lemma names_demo:
  "map playerName (generateDemoLeaderboard gameType limit) = map fst (slice0 limit demoPlayers)"
  by (rule nth_equalityI) (simp_all add: length_demo nth_demo(1))

lemma length_demoPlayers: "length demoPlayers = 10"
  by (simp add: demoPlayers_def)

text \<open>
  C7, as the code has it. In demo mode, whatever the game type, when no player is known or
  when one of the stored objects cannot be read, \<open>getLeaderboard\<close> returns the board of
  \<open>generateDemoLeaderboard\<close>, cut to the limit: for the default limit and for every positive
  limit it is not empty, its names are the first names of the fixed list of demo players
  and its ranks count from 1. The function has no failing branch: a read that throws ends
  in this board.
\<close>

theorem placeholder_leaderboard:
  assumes "\<not> remote h c"
    and "read_all st = None \<or> (\<exists>stores. read_all st = Some stores \<and> known_players stores = [])"
    and "lim_opt = None \<or> (\<exists>n. lim_opt = Some n \<and> 0 < n)"
  shows "getLeaderboard h c st gameType lim_opt =
           generateDemoLeaderboard gameType (case lim_opt of None \<Rightarrow> 10 | Some n \<Rightarrow> n)
       \<and> getLeaderboard h c st gameType lim_opt \<noteq> []
       \<and> prefix (map playerName (getLeaderboard h c st gameType lim_opt)) (map fst demoPlayers)
       \<and> (\<forall>i < length (getLeaderboard h c st gameType lim_opt).
             rank (getLeaderboard h c st gameType lim_opt ! i) = i + 1)"
proof -
  let ?limit = "case lim_opt of None \<Rightarrow> 10 | Some n \<Rightarrow> n"
  have eq: "getLeaderboard h c st gameType lim_opt = generateDemoLeaderboard gameType ?limit"
    using assms(1,2) by (auto simp: getLeaderboard_def Let_def)
  have pos: "0 < ?limit" using assms(3) by auto
  then have sl: "slice0 ?limit demoPlayers = take (nat ?limit) demoPlayers"
    by (simp add: slice0_def)
  have "length (take (nat ?limit) demoPlayers) = min 10 (nat ?limit)"
    by (simp only: length_take length_demoPlayers)
  with pos have "0 < length (slice0 ?limit demoPlayers)"
    unfolding sl by simp
  then have ne: "generateDemoLeaderboard gameType ?limit \<noteq> []"
    using length_demo[of gameType ?limit] by auto
  have "map playerName (generateDemoLeaderboard gameType ?limit) =
      take (nat ?limit) (map fst demoPlayers)"
    unfolding names_demo sl by (rule take_map[symmetric])
  then have pre: "prefix (map playerName (generateDemoLeaderboard gameType ?limit)) (map fst demoPlayers)"
    by (simp only: take_is_prefix)
  have rk: "\<forall>i < length (generateDemoLeaderboard gameType ?limit).
      rank (generateDemoLeaderboard gameType ?limit ! i) = i + 1"
    using nth_demo(2)[of _ ?limit gameType] by (simp add: length_demo)
  show ?thesis unfolding eq using ne pre rk by blast
qed

theorem placeholder_leaderboard_witness:
  "\<not> remote demo_hook no_client
   \<and> read_all empty_storage = Some ([], [], [], [], [], [])
   \<and> known_players ([], [], [], [], [], []) = []
   \<and> read_all corrupt_storage = None
   \<and> map playerName (getLeaderboard demo_hook no_client empty_storage ''uno'' (Some 3)) =
        [''CryptoKing'', ''Web3Pro'', ''BlockMaster'']
   \<and> map playerName (getLeaderboard demo_hook no_client corrupt_storage ''uno'' (Some 3)) =
        [''CryptoKing'', ''Web3Pro'', ''BlockMaster'']
   \<and> length (getLeaderboard demo_hook no_client corrupt_storage ''snake'' None) = 10"
proof -
  have e: "read_all empty_storage = Some ([], [], [], [], [], [])"
    by (simp add: read_all_def empty_storage_def)
  have k: "known_players ([], [], [], [], [], []) = []"
    by (simp add: known_players_def Object_keys_def Set_from_def)
  have c: "read_all corrupt_storage = None"
    by (simp add: read_all_def corrupt_storage_def played_storage_def)
  have l: "Some (3::int) = None \<or> (\<exists>n. Some (3::int) = Some n \<and> 0 < n)" by simp
  have l': "(None :: int option) = None \<or> (\<exists>n. (None :: int option) = Some n \<and> 0 < n)" by simp
  have e': "read_all empty_storage = None
      \<or> (\<exists>stores. read_all empty_storage = Some stores \<and> known_players stores = [])"
    using e k by simp
  have c': "read_all corrupt_storage = None
      \<or> (\<exists>stores. read_all corrupt_storage = Some stores \<and> known_players stores = [])"
    using c by simp
  have n: "map playerName (generateDemoLeaderboard g 3) = [''CryptoKing'', ''Web3Pro'', ''BlockMaster'']" for g
    by (simp add: names_demo slice0_def demoPlayers_def)
  have t: "length (generateDemoLeaderboard g 10) = 10" for g
    by (simp add: length_demo slice0_def demoPlayers_def)
  from placeholder_leaderboard[OF demo_session(2) e' l, of "''uno''"]
    placeholder_leaderboard[OF demo_session(2) c' l, of "''uno''"]
    placeholder_leaderboard[OF demo_session(2) c' l', of "''snake''"]
  show ?thesis using demo_session(2) e k c n t by simp
qed

text \<open>A caller that asks for no entries gets none: with limit 0 the placeholder board is
  the empty list.\<close>

theorem placeholder_leaderboard_limit_zero:
  "getLeaderboard demo_hook no_client empty_storage ''snake'' (Some 0) = []
   \<and> getLeaderboard demo_hook no_client corrupt_storage ''snake'' (Some 0) = []"
  by (simp add: getLeaderboard_def demo_session read_all_def empty_storage_def corrupt_storage_def
      played_storage_def known_players_def Object_keys_def Set_from_def rank_entries_def
      generateDemoLeaderboard_def slice0_def)

section \<open>The aggregate board\<close>

text \<open>
  C5, as the code has it. On the board of no particular game type, a player's score is the
  snake high score plus 100 for every win at tic-tac-toe, snakes and ladders and uno. The
  board of snakes and ladders counts 150 a win, so the aggregate score is the sum of the
  four per-type scores less 50 for every win at snakes and ladders, and equals that sum
  for a player without such wins. The wins and losses behind \<open>gamesPlayed\<close> and \<open>winRate\<close>
  are the sums of the wins and of the losses at the three win/loss games.
\<close>

theorem aggregate_entry:
  assumes "\<not> remote h c"
    and "read_all st = Some (storedScores, storedTTT, storedSL, storedUno, storedProfiles, storedGames)"
    and "known_players (storedScores, storedTTT, storedSL, storedUno, storedProfiles, storedGames) \<noteq> []"
    and "gameType \<notin> {''snake'', ''tictactoe'', ''snakeladders'', ''uno''}"
    and "e \<in> set (getLeaderboard h c st gameType lim_opt)"
  shows "(let stores = (storedScores, storedTTT, storedSL, storedUno, storedProfiles, storedGames);
              a = playerAddress e;
              totalWins = wins (stats_of storedTTT a) + wins (stats_of storedSL a)
                          + wins (stats_of storedUno a);
              totalLosses = losses (stats_of storedTTT a) + losses (stats_of storedSL a)
                            + losses (stats_of storedUno a)
          in leaderboardEntry.score e = or0 (obj_get storedScores a) + totalWins * 100
           \<and> leaderboardEntry.score e + 50 * wins (stats_of storedSL a) =
               leaderboardEntry.score (leaderboard_entry ''snake'' stores a)
               + leaderboardEntry.score (leaderboard_entry ''tictactoe'' stores a)
               + leaderboardEntry.score (leaderboard_entry ''snakeladders'' stores a)
               + leaderboardEntry.score (leaderboard_entry ''uno'' stores a)
           \<and> gamesPlayed e = games_played_of totalWins totalLosses (obj_get storedGames a)
           \<and> winRate e = win_rate totalWins (gamesPlayed e))"
proof -
  define a where "a = playerAddress e"
  define stores where
    "stores = (storedScores, storedTTT, storedSL, storedUno, storedProfiles, storedGames)"
  from board_entry[OF assms(1-3,5)] obtain r where
    e: "e = (leaderboard_entry gameType stores a)\<lparr>rank := r\<rparr>"
    unfolding a_def stores_def ..
  have "leaderboardEntry.score e = leaderboardEntry.score (leaderboard_entry gameType stores a)"
    "gamesPlayed e = gamesPlayed (leaderboard_entry gameType stores a)"
    "winRate e = winRate (leaderboard_entry gameType stores a)"
    by (subst e, simp)+
  then show ?thesis using assms(4)
    unfolding a_def[symmetric] Let_def
    by (simp add: stores_def leaderboard_entry_def score_wins_losses_def Let_def)
qed

lemma ladder_read:
  "read_all ladder_storage =
     Some ([], [], [(''0xab12'', \<lparr>wins = 1, losses = 0, bestPosition = 1\<rparr>)], [], [], [])"
  by (simp add: read_all_def ladder_storage_def empty_storage_def)

lemma ladder_players:
  "known_players ([], [], [(''0xab12'', \<lparr>wins = 1, losses = 0, bestPosition = 1\<rparr>)], [], [], [])
     = [''0xab12'']"
  by (simp add: known_players_def Object_keys_def Set_from_def)

theorem aggregate_entry_witness:
  "\<not> remote demo_hook no_client
   \<and> read_all played_storage =
       Some ([(''0xab12'', 120)], [(''0xab12'', \<lparr>wins = 2, losses = 1\<rparr>)], [],
             [(''0xab12'', \<lparr>wins = 1, losses = 0\<rparr>)], [], [(''0xab12'', 4)])
   \<and> ''all'' \<notin> {''snake'', ''tictactoe'', ''snakeladders'', ''uno''}
   \<and> hd (getLeaderboard demo_hook no_client played_storage ''all'' None)
       \<in> set (getLeaderboard demo_hook no_client played_storage ''all'' None)
   \<and> leaderboardEntry.score (hd (getLeaderboard demo_hook no_client played_storage ''all'' None)) = 420
   \<and> gamesPlayed (hd (getLeaderboard demo_hook no_client played_storage ''all'' None)) = 4"
proof -
  let ?stores = "([(''0xab12'', 120)], [(''0xab12'', \<lparr>wins = 2, losses = 1\<rparr>)], [],
             [(''0xab12'', \<lparr>wins = 1, losses = 0\<rparr>)], [], [(''0xab12'', 4 :: nat)])"
  let ?e = "hd (getLeaderboard demo_hook no_client played_storage ''all'' None)"
  have r: "read_all played_storage = Some ?stores"
    by (simp add: read_all_def played_storage_def)
  have k: "known_players ?stores = [''0xab12'']"
    by (simp add: known_players_def Object_keys_def Set_from_def)
  then have ne: "known_players ?stores \<noteq> []" by simp
  have b: "getLeaderboard demo_hook no_client played_storage ''all'' None =
      [(leaderboard_entry ''all'' ?stores ''0xab12'')\<lparr>rank := 1\<rparr>]"
    by (rule single_board[OF demo_session(2) r k])
  have m: "?e \<in> set (getLeaderboard demo_hook no_client played_storage ''all'' None)"
    unfolding b by simp
  have a: "playerAddress ?e = ''0xab12''" unfolding b by simp
  have t: "''all'' \<notin> {''snake'', ''tictactoe'', ''snakeladders'', ''uno''}" by simp
  from aggregate_entry[OF demo_session(2) r ne t m]
  have "leaderboardEntry.score ?e = 420 \<and> gamesPlayed ?e = 4"
    by (simp add: a Let_def stats_of_def obj_get_def games_played_of_def no_stats_def)
  with demo_session(2) r t m show ?thesis by blast
qed

text \<open>One win at snakes and ladders: 100 on the aggregate board, 150 on the board of the
  game and 0 on the three others.\<close>

theorem aggregate_is_not_the_sum:
  "map leaderboardEntry.score (getLeaderboard demo_hook no_client ladder_storage ''all'' None) = [100]
   \<and> map leaderboardEntry.score (getLeaderboard demo_hook no_client ladder_storage ''snake'' None) = [0]
   \<and> map leaderboardEntry.score (getLeaderboard demo_hook no_client ladder_storage ''tictactoe'' None) = [0]
   \<and> map leaderboardEntry.score (getLeaderboard demo_hook no_client ladder_storage ''snakeladders'' None) = [150]
   \<and> map leaderboardEntry.score (getLeaderboard demo_hook no_client ladder_storage ''uno'' None) = [0]
   \<and> (100 :: nat) \<noteq> 0 + 0 + 150 + 0"
  by (simp add: single_board[OF demo_session(2) ladder_read ladder_players]
      leaderboard_entry_def score_wins_losses_def stats_of_def obj_get_def no_stats_def Let_def)

section \<open>Games played and win rate\<close>

text \<open>The rounding model: \<open>rne\<close> is within a half of its argument, \<open>binade\<close> is the
  exponent of the power of two at or below a positive number, and \<open>fl\<close> has the relative
  error of a 53-bit significand.\<close>

lemma rne_err: "\<bar>of_int (rne t) - t\<bar> \<le> 1 / 2"
proof -
  have "of_int \<lfloor>t\<rfloor> \<le> t" "t < of_int \<lfloor>t\<rfloor> + 1" by linarith+
  then show ?thesis by (auto simp: rne_def Let_def)
qed

lemma binade_le:
  assumes "0 < q"
  shows "2 powi (binade q) \<le> q"
proof (cases "1 \<le> q")
  case True
  let ?n = "nat \<lfloor>q\<rfloor>"
  have n: "0 < ?n" using True by simp
  from floorlog_bounds[OF n, of 2] have b: "2 ^ (floorlog 2 ?n - 1) \<le> ?n" by simp
  have pos: "0 < floorlog 2 ?n" using n by (simp add: floorlog_eq_zero_iff Suc_le_eq not_le[symmetric] del: not_le)
  have "binade q = int (floorlog 2 ?n - 1)" using True pos by (simp add: binade_def)
  then have "(2::rat) powi (binade q) = 2 ^ (floorlog 2 ?n - 1)" by simp
  also have "\<dots> = of_nat (2 ^ (floorlog 2 ?n - 1))" by simp
  also have "\<dots> \<le> of_nat ?n" using b by (simp only: of_nat_le_iff)
  also have "\<dots> = of_int \<lfloor>q\<rfloor>" using True by simp
  also have "\<dots> \<le> q" by simp
  finally show ?thesis .
next
  case False
  let ?c = "\<lceil>1 / q\<rceil>"
  let ?n = "nat ?c - 1"
  let ?m = "floorlog 2 ?n"
  have "1 < 1 / q" using False assms by simp
  then have c2: "2 \<le> ?c" by linarith
  then have n: "0 < ?n" by simp
  from floorlog_bounds[OF n, of 2] have "?n < (2::nat) ^ ?m" by simp
  then have "nat ?c \<le> (2::nat) ^ ?m" by linarith
  then have "(of_nat (nat ?c) :: rat) \<le> of_nat (2 ^ ?m)" by (simp only: of_nat_le_iff)
  then have "(of_int ?c :: rat) \<le> 2 ^ ?m" using c2 by simp
  moreover have "1 / q \<le> of_int ?c" by simp
  ultimately have "1 / q \<le> 2 ^ ?m" by linarith
  then have "1 \<le> 2 ^ ?m * q" using assms by (simp add: field_simps)
  then have "1 / 2 ^ ?m \<le> q" by (simp add: field_simps)
  moreover have "(2::rat) powi (binade q) = 1 / 2 ^ ?m"
    using False by (simp add: binade_def power_int_minus field_simps)
  ultimately show ?thesis by simp
qed

lemma binade_less:
  assumes "0 < q"
  shows "q < 2 powi (binade q + 1)"
proof (cases "1 \<le> q")
  case True
  let ?n = "nat \<lfloor>q\<rfloor>"
  have n: "0 < ?n" using True by simp
  from floorlog_bounds[OF n, of 2] have "?n < (2::nat) ^ floorlog 2 ?n" by simp
  then have "?n + 1 \<le> (2::nat) ^ floorlog 2 ?n" by linarith
  then have "(of_nat (?n + 1) :: rat) \<le> of_nat (2 ^ floorlog 2 ?n)" by (simp only: of_nat_le_iff)
  then have "(of_int \<lfloor>q\<rfloor> :: rat) + 1 \<le> 2 ^ floorlog 2 ?n" using True by simp
  moreover have "q < of_int \<lfloor>q\<rfloor> + 1" by linarith
  ultimately have "q < 2 ^ floorlog 2 ?n" by linarith
  moreover have "binade q + 1 = int (floorlog 2 ?n)" using True by (simp add: binade_def)
  ultimately show ?thesis by simp
next
  case False
  let ?c = "\<lceil>1 / q\<rceil>"
  let ?n = "nat ?c - 1"
  let ?m = "floorlog 2 ?n"
  have "1 < 1 / q" using False assms by simp
  then have c2: "2 \<le> ?c" by linarith
  then have n: "0 < ?n" by simp
  then have m: "0 < ?m" by (simp add: floorlog_def)
  from floorlog_bounds[OF n, of 2] have "(2::nat) ^ (?m - 1) \<le> ?n" by simp
  then have "(of_nat (2 ^ (?m - 1)) :: rat) \<le> of_nat ?n" by (simp only: of_nat_le_iff)
  then have "(2::rat) ^ (?m - 1) \<le> of_int ?c - 1" using c2 by (simp add: of_nat_diff)
  moreover have "of_int ?c - 1 < 1 / q" by linarith
  ultimately have "(2::rat) ^ (?m - 1) < 1 / q" by linarith
  then have "q * 2 ^ (?m - 1) < 1" using assms by (simp add: field_simps)
  then have "q < 1 / 2 ^ (?m - 1)" by (simp add: field_simps)
  moreover have "binade q + 1 = - int (?m - 1)" using False m by (simp add: binade_def)
  then have "(2::rat) powi (binade q + 1) = 1 / 2 ^ (?m - 1)"
    by (simp only: power_int_minus power_int_of_nat) (simp add: field_simps)
  ultimately show ?thesis by simp
qed

lemma fl_err:
  assumes "0 < q"
  shows "\<bar>fl q - q\<bar> \<le> q / 2 ^ 53"
proof -
  define P :: rat where "P = 2 powi (binade q - 52)"
  have Ppos: "0 < P" by (simp add: P_def)
  have P: "P * 2 ^ 52 = 2 powi (binade q)"
    by (simp add: P_def power_int_diff)
  have flq: "fl q = of_int (rne (q / P)) * P"
    using assms by (simp add: fl_def P_def Let_def)
  have "fl q - q = (of_int (rne (q / P)) - q / P) * P"
    using Ppos by (simp add: flq field_simps)
  then have "\<bar>fl q - q\<bar> = \<bar>of_int (rne (q / P)) - q / P\<bar> * P"
    using Ppos by (simp add: abs_mult)
  also have "\<dots> \<le> 1 / 2 * P"
    using rne_err[of "q / P"] Ppos by (intro mult_right_mono) simp_all
  also have "\<dots> = 2 powi (binade q) / 2 ^ 53" using P[symmetric] by simp
  also have "\<dots> \<le> q / 2 ^ 53" using binade_le[OF assms] by (simp add: divide_right_mono)
  finally show ?thesis .
qed

lemma win_rate_0: "win_rate 0 g = 0"
proof -
  have "\<lfloor>1 / 2 :: rat\<rfloor> = 0" by (rule floor_unique) simp_all
  then show ?thesis by (simp add: win_rate_def js_div_def js_mul_def fl_def Math_round_def)
qed

lemma product_err:
  fixes q :: rat
  assumes "0 < q" and "q \<le> 1"
  shows "\<bar>fl (fl q * 100) - 100 * q\<bar> < 1 / 2 ^ 45"
proof -
  define u :: rat where "u = 1 / 2 ^ 53"
  define r1 where "r1 = fl q"
  define y where "y = r1 * 100"
  define x where "x = fl y"
  have u: "0 < u" "u < 1" by (simp_all add: u_def)
  have "\<bar>r1 - q\<bar> \<le> q / 2 ^ 53" unfolding r1_def by (rule fl_err[OF assms(1)])
  then have e1: "\<bar>r1 - q\<bar> \<le> q * u" by (simp add: u_def)
  have qu: "q * u \<le> u" using assms(2) u(1) by (simp add: mult_left_le_one_le)
  have "q * u < q" using assms(1) u by simp
  with e1 have r1pos: "0 < r1" by linarith
  then have ypos: "0 < y" by (simp add: y_def)
  have "\<bar>x - y\<bar> \<le> y / 2 ^ 53" unfolding x_def by (rule fl_err[OF ypos])
  then have e2: "\<bar>x - y\<bar> \<le> y * u" by (simp add: u_def)
  have yr: "y = 100 * r1" by (simp add: y_def)
  from e1 qu assms(2) have d1: "\<bar>y - 100 * q\<bar> \<le> 100 * u" and yb: "y \<le> 100 + 100 * u"
    unfolding yr by linarith+
  from yb have "y * u \<le> (100 + 100 * u) * u" using u(1) by (simp add: mult_right_mono)
  with e2 have d2: "\<bar>x - y\<bar> \<le> (100 + 100 * u) * u" by linarith
  have "\<bar>x - 100 * q\<bar> \<le> \<bar>x - y\<bar> + \<bar>y - 100 * q\<bar>" by linarith
  also have "\<dots> \<le> (100 + 100 * u) * u + 100 * u" using d1 d2 by linarith
  also have "\<dots> < 1 / 2 ^ 45" by (simp add: u_def)
  finally show ?thesis by (simp add: x_def y_def r1_def)
qed

lemma win_rate_nearest:
  assumes g: "0 < g" "g \<le> 2 ^ 44" and w: "w \<le> g"
    and no_tie: "\<not> (\<exists>k :: int. 200 * int w = (2 * k + 1) * int g)"
  shows "win_rate w g = (200 * int w + int g) div (2 * int g)"
proof (cases "w = 0")
  case True
  then show ?thesis using g by (simp add: win_rate_0)
next
  case False
  define a where "a = 200 * int w + int g"
  define b where "b = 2 * int g"
  define K where "K = a div b"
  define m where "m = a mod b"
  have bpos: "0 < b" using g by (simp add: b_def)
  have am: "a = K * b + m" by (simp add: K_def m_def)
  have m0: "0 \<le> m" "m < b" using bpos by (simp_all add: m_def)
  have "m \<noteq> 0"
  proof
    assume "m = 0"
    with am have "200 * int w = (2 * (K - 1) + 1) * int g"
      by (simp add: a_def b_def algebra_simps)
    with no_tie show False by blast
  qed
  with m0 have m1: "1 \<le> m" "m + 1 \<le> b" by linarith+
  define q :: rat where "q = of_nat w / of_nat g"
  define x where "x = fl (fl q * 100)"
  have q: "0 < q" "q \<le> 1" using False g w by (simp_all add: q_def)
  have Bpos: "0 < (of_int b :: rat)" using bpos by simp
  have "(of_nat g :: rat) \<le> 2 ^ 44"
    using g(2) by (metis of_nat_le_iff of_nat_numeral of_nat_power)
  then have "(of_int b :: rat) \<le> 2 ^ 45" by (simp add: b_def)
  then have "1 / 2 ^ 45 \<le> 1 / (of_int b :: rat)" using Bpos by (simp add: field_simps)
  with product_err[OF q] have err: "\<bar>x - 100 * q\<bar> < 1 / of_int b" by (simp add: x_def)
  have "100 * q + 1 / 2 = of_int a / of_int b"
    using g by (simp add: q_def a_def b_def field_simps)
  also have "\<dots> = of_int K + of_int m / of_int b"
    using Bpos by (simp add: am field_simps)
  finally have r: "100 * q + 1 / 2 = of_int K + of_int m / of_int b" .
  have lo: "(1 :: rat) / of_int b \<le> of_int m / of_int b"
    using m1(1) Bpos by (simp add: divide_right_mono)
  have "(of_int m + 1 :: rat) \<le> of_int b" using m1(2) by (metis of_int_1 of_int_add of_int_le_iff)
  then have hi: "(of_int m :: rat) / of_int b + 1 / of_int b \<le> 1"
    using Bpos by (simp add: field_simps)
  have "of_int K \<le> x + 1 / 2" "x + 1 / 2 < of_int K + 1"
    using err r lo hi by linarith+
  then have "\<lfloor>x + 1 / 2\<rfloor> = K" by linarith
  moreover have "win_rate w g = \<lfloor>x + 1 / 2\<rfloor>"
    using g by (simp add: win_rate_def js_mul_def js_div_def Math_round_def x_def q_def)
  ultimately show ?thesis by (simp add: K_def a_def b_def)
qed

lemma win_rate_nearest_mod:
  assumes g: "0 < g" "g \<le> 2 ^ 44" and w: "w \<le> g"
    and no_tie: "(200 * w) mod (2 * g) \<noteq> g"
  shows "win_rate w g = (200 * int w + int g) div (2 * int g)"
proof (rule win_rate_nearest[OF g w])
  show "\<not> (\<exists>k :: int. 200 * int w = (2 * k + 1) * int g)"
  proof
    assume "\<exists>k :: int. 200 * int w = (2 * k + 1) * int g"
    then obtain k :: int where k: "200 * int w = (2 * k + 1) * int g" ..
    have "int ((200 * w) mod (2 * g)) = (200 * int w) mod (2 * int g)"
      by (simp add: zmod_int)
    also have "200 * int w = int g + k * (2 * int g)"
      using k by (simp add: algebra_simps)
    also have "(int g + k * (2 * int g)) mod (2 * int g) = int g mod (2 * int g)"
      by (rule mod_mult_self1)
    also have "\<dots> = int g" using g(1) by simp
    finally show False using no_tie by simp
  qed
qed

text \<open>
  C8, as the code has it. On the board of a win/loss game, \<open>gamesPlayed\<close> is wins plus
  losses of that game; when that is zero, the stored games-played counter; and when that is
  zero or missing too, 1. The win rate is the integer nearest to
  \<open>100 * wins / gamesPlayed\<close> whenever that quotient is not exactly halfway between two
  integers (for \<open>gamesPlayed\<close> up to \<open>2 ^ 44\<close>).
\<close>

theorem win_loss_entry:
  assumes "\<not> remote h c"
    and "read_all st = Some (storedScores, storedTTT, storedSL, storedUno, storedProfiles, storedGames)"
    and "known_players (storedScores, storedTTT, storedSL, storedUno, storedProfiles, storedGames) \<noteq> []"
    and "gameType \<in> {''tictactoe'', ''snakeladders'', ''uno''}"
    and "e \<in> set (getLeaderboard h c st gameType lim_opt)"
  shows "(let a = playerAddress e;
              s = (if gameType = ''tictactoe'' then stats_of storedTTT a
                   else if gameType = ''snakeladders'' then stats_of storedSL a
                   else stats_of storedUno a);
              stored = or0 (obj_get storedGames a)
          in gamesPlayed e = (if wins s + losses s \<noteq> 0 then wins s + losses s
                              else if stored \<noteq> 0 then stored else 1)
           \<and> (gamesPlayed e \<le> 2 ^ 44 \<and> (200 * wins s) mod (2 * gamesPlayed e) \<noteq> gamesPlayed e
                \<longrightarrow> winRate e =
                     (200 * int (wins s) + int (gamesPlayed e)) div (2 * int (gamesPlayed e))))"
proof -
  define a where "a = playerAddress e"
  define stores where
    "stores = (storedScores, storedTTT, storedSL, storedUno, storedProfiles, storedGames)"
  define s where "s = (if gameType = ''tictactoe'' then stats_of storedTTT a
                   else if gameType = ''snakeladders'' then stats_of storedSL a
                   else stats_of storedUno a)"
  define g where "g = games_played_of (wins s) (losses s) (obj_get storedGames a)"
  from board_entry[OF assms(1-3,5)] obtain r where
    e: "e = (leaderboard_entry gameType stores a)\<lparr>rank := r\<rparr>"
    unfolding a_def stores_def ..
  have "gamesPlayed e = gamesPlayed (leaderboard_entry gameType stores a)"
    "winRate e = winRate (leaderboard_entry gameType stores a)"
    by (subst e, simp)+
  then have gp: "gamesPlayed e = g" and wr: "winRate e = win_rate (wins s) g"
    using assms(4)
    by (auto simp: stores_def leaderboard_entry_def score_wins_losses_def Let_def s_def g_def)
  have g: "g = (if wins s + losses s \<noteq> 0 then wins s + losses s
               else if or0 (obj_get storedGames a) \<noteq> 0 then or0 (obj_get storedGames a) else 1)"
    by (simp add: g_def games_played_of_def)
  then have bounds: "0 < g" "wins s \<le> g" by (auto split: if_splits)
  have "win_rate (wins s) g = (200 * int (wins s) + int g) div (2 * int g)"
    if "g \<le> 2 ^ 44" "(200 * wins s) mod (2 * g) \<noteq> g"
    using win_rate_nearest_mod[OF bounds(1) that(1) bounds(2) that(2)] .
  then show ?thesis
    unfolding Let_def a_def[symmetric] s_def[symmetric] gp wr using g by simp
qed

lemma win_rate_1_of_3: "win_rate 1 3 = 33"
  by code_simp

lemma win_rate_23_of_40: "win_rate 23 40 = 57"
  by code_simp

lemma tictactoe_read:
  "read_all (tictactoe_storage w l) = Some ([], [(''0xab12'', \<lparr>wins = w, losses = l\<rparr>)], [], [], [], [])"
  by (simp add: read_all_def tictactoe_storage_def empty_storage_def)

lemma won_read:
  "read_all won_1_of_3 = Some ([], [(''0xab12'', \<lparr>wins = 1, losses = 2\<rparr>)], [], [], [], [])"
  "read_all won_23_of_40 = Some ([], [(''0xab12'', \<lparr>wins = 23, losses = 17\<rparr>)], [], [], [], [])"
  by (simp_all only: won_1_of_3_def won_23_of_40_def tictactoe_read)

lemma tictactoe_players:
  "known_players ([], [(''0xab12'', \<lparr>wins = w, losses = l\<rparr>)], [], [], [], []) = [''0xab12'']"
  by (simp add: known_players_def Object_keys_def Set_from_def)

lemma uno_read:
  "read_all uno_storage = Some ([], [], [], [(''0xab12'', \<lparr>wins = 1, losses = 0\<rparr>)], [], [])"
  by (simp add: read_all_def uno_storage_def empty_storage_def)

lemma uno_players:
  "known_players ([], [], [], [(''0xab12'', \<lparr>wins = 1, losses = 0\<rparr>)], [], []) = [''0xab12'']"
  by (simp add: known_players_def Object_keys_def Set_from_def)

text \<open>The example of the specification: 1 win and 2 losses give a win rate of 33.\<close>

theorem win_loss_entry_witness:
  "\<not> remote demo_hook no_client
   \<and> read_all won_1_of_3 =
       Some ([], [(''0xab12'', \<lparr>wins = 1, losses = 2\<rparr>)], [], [], [], [])
   \<and> known_players ([], [(''0xab12'', \<lparr>wins = 1, losses = 2\<rparr>)], [], [], [], []) \<noteq> []
   \<and> hd (getLeaderboard demo_hook no_client won_1_of_3 ''tictactoe'' None)
       \<in> set (getLeaderboard demo_hook no_client won_1_of_3 ''tictactoe'' None)
   \<and> gamesPlayed (hd (getLeaderboard demo_hook no_client won_1_of_3 ''tictactoe'' None)) = 3
   \<and> winRate (hd (getLeaderboard demo_hook no_client won_1_of_3 ''tictactoe'' None)) = 33"
proof -
  let ?e = "hd (getLeaderboard demo_hook no_client won_1_of_3 ''tictactoe'' None)"
  have ne: "known_players ([], [(''0xab12'', \<lparr>wins = 1, losses = 2\<rparr>)], [], [], [], []) \<noteq> []"
    by (simp add: tictactoe_players)
  have b: "getLeaderboard demo_hook no_client won_1_of_3 ''tictactoe'' None =
      [(leaderboard_entry ''tictactoe'' ([], [(''0xab12'', \<lparr>wins = 1, losses = 2\<rparr>)], [], [], [], [])
          ''0xab12'')\<lparr>rank := 1\<rparr>]"
    by (rule single_board[OF demo_session(2) won_read(1) tictactoe_players])
  have m: "?e \<in> set (getLeaderboard demo_hook no_client won_1_of_3 ''tictactoe'' None)"
    unfolding b by simp
  have a: "playerAddress ?e = ''0xab12''" unfolding b by simp
  have t: "''tictactoe'' \<in> {''tictactoe'', ''snakeladders'', ''uno''}" by simp
  from win_loss_entry[OF demo_session(2) won_read(1) ne t m]
  have "gamesPlayed ?e = 3 \<and> winRate ?e = 33"
    by (simp add: a Let_def stats_of_def obj_get_def)
  with demo_session(2) won_read(1) ne m show ?thesis by blast
qed

text \<open>23 wins and 17 losses: \<open>100 * 23 / 40\<close> is 57.5 and rounds to 58, but the quotient
  \<open>23 / 40\<close> is rounded before it is multiplied by 100 and the win rate comes out as 57. A
  player known from uno alone is on the tic-tac-toe board with 1 game played, although no
  counter is stored.\<close>

theorem win_rate_counterexamples:
  "map (\<lambda>e. (gamesPlayed e, winRate e))
     (getLeaderboard demo_hook no_client won_23_of_40 ''tictactoe'' None) = [(40, 57)]
   \<and> (200 * 23 + 40) div (2 * 40) = (58 :: int)
   \<and> map gamesPlayed (getLeaderboard demo_hook no_client uno_storage ''tictactoe'' None) = [1]
   \<and> linera_games_played uno_storage = Some []
   \<and> linera_tictactoe_stats uno_storage = Some []"
proof -
  have "map (\<lambda>e. (gamesPlayed e, winRate e))
     (getLeaderboard demo_hook no_client won_23_of_40 ''tictactoe'' None) = [(40, 57)]"
    unfolding single_board[OF demo_session(2) won_read(2) tictactoe_players]
    by (simp add: leaderboard_entry_def score_wins_losses_def stats_of_def obj_get_def
        Let_def games_played_of_def win_rate_23_of_40)
  moreover have "map gamesPlayed (getLeaderboard demo_hook no_client uno_storage ''tictactoe'' None) = [1]"
    unfolding single_board[OF demo_session(2) uno_read uno_players]
    by (simp add: leaderboard_entry_def score_wins_losses_def stats_of_def obj_get_def
        no_stats_def Let_def games_played_of_def)
  moreover have "linera_games_played uno_storage = Some []" "linera_tictactoe_stats uno_storage = Some []"
    by (simp_all add: uno_storage_def empty_storage_def)
  ultimately show ?thesis by simp
qed

end
